theory Spec2Isabelle
  imports Main
begin

section \<open>Data model of the list document model (src/listmodel/index.ts)\<close>

text \<open>
  The file under verification is \<^verbatim>\<open>src/listmodel/index.ts\<close>. It imports the
  position algebra (\<^verbatim>\<open>./position\<close>, \<^verbatim>\<open>./int\<close>), the anchored node
  (\<^verbatim>\<open>./logoot\<close>) and the differential search tree (\<^verbatim>\<open>../bst\<close>), none of
  which is part of the file. What the file only reads off those classes (field accessors,
  offsets along the lowest level, the in-order neighbour of a node) is modelled from the
  specification and marked so; what they compute by an algorithm of their own (searches,
  slicing, position generation, the tree's self test) is taken as a parameter, collected in
  the record \<open>env\<close> below.
\<close>

subsection \<open>Errors\<close>

text \<open>
  The three error classes the file throws. \<open>TypeError\<close> is the user-recoverable
  invalid-argument kind, \<open>InternalError\<close> the internal kind and \<open>FatalError\<close> the
  fatal kind. Each carries the message of the throw statement.
\<close>

datatype error = TypeError string | FatalError string | InternalError string

definition bind_e :: "error + 'a \<Rightarrow> ('a \<Rightarrow> error + 'b) \<Rightarrow> error + 'b" where
  "bind_e m f = (case m of Inl e \<Rightarrow> Inl e | Inr x \<Rightarrow> f x)"

subsection \<open>Positions\<close>

type_synonym LogootInt = int

text \<open>A branch key is opaque; it is represented by its rank in the branch order.\<close>

type_synonym BranchKey = nat

text \<open>A position is its sequence of levels, each an atom and a branch.\<close>

type_synonym LogootPosition = "(LogootInt \<times> BranchKey) list"

text \<open>
  Modelled from the spec: \<^verbatim>\<open>LogootPosition.offsetLowest\<close> (class LogootPosition is
  not in the file): "new position equal to self with the lowest-level atom incremented by
  k". The lowest level is the last one.
\<close>

definition offsetLowest :: "LogootPosition \<Rightarrow> int \<Rightarrow> LogootPosition" where
  "offsetLowest p k =
     (case rev p of [] \<Rightarrow> [] | (a, b) # r \<Rightarrow> rev ((a + k, b) # r))"

text \<open>
  Modelled from the spec: \<^verbatim>\<open>LogootPosition.inverseOffsetLowest\<close>: "new position with
  the lowest-level atom decremented by k".
\<close>

definition inverseOffsetLowest :: "LogootPosition \<Rightarrow> int \<Rightarrow> LogootPosition" where
  "inverseOffsetLowest p k = offsetLowest p (- k)"

text \<open>
  Modelled from the spec: \<^verbatim>\<open>LogootPosition.length\<close> is the number of levels and
  \<^verbatim>\<open>LogootPosition.levels\<close> the index of the lowest level (the file reads the atom
  \<^verbatim>\<open>start.l(start.levels)[0]\<close>).
\<close>

definition levels :: "LogootPosition \<Rightarrow> nat" where
  "levels p = length p - 1"

text \<open>
  Modelled from the spec: \<^verbatim>\<open>LogootPosition.l(level)[0]\<close>, the atom at a level. A
  level the position does not have reads as atom 0.
\<close>

definition l_atom :: "LogootPosition \<Rightarrow> nat \<Rightarrow> LogootInt" where
  "l_atom p lvl = (if lvl < length p then fst (p ! lvl) else 0)"

text \<open>
  Modelled from the spec: the comparison of positions, "lexicographic by level: atoms
  compared numerically, ties broken by branch rank"; a position that is a proper prefix of
  another sorts before it. The result is negative, zero or positive as in
  \<^verbatim>\<open>LogootPosition.cmp\<close>.
\<close>

fun cmp :: "LogootPosition \<Rightarrow> LogootPosition \<Rightarrow> int" where
  "cmp [] [] = 0"
| "cmp [] (y # ys) = - 1"
| "cmp (x # xs) [] = 1"
| "cmp ((a, b) # xs) ((c, d) # ys) =
     (if a < c then - 1 else if c < a then 1
      else if b < d then - 1 else if d < b then 1
      else cmp xs ys)"

definition lt :: "LogootPosition \<Rightarrow> LogootPosition \<Rightarrow> bool" where
  "lt p q = (cmp p q < 0)"

definition gt :: "LogootPosition \<Rightarrow> LogootPosition \<Rightarrow> bool" where
  "gt p q = (cmp p q > 0)"

definition lteq :: "LogootPosition \<Rightarrow> LogootPosition \<Rightarrow> bool" where
  "lteq p q = (cmp p q \<le> 0)"

definition gteq :: "LogootPosition \<Rightarrow> LogootPosition \<Rightarrow> bool" where
  "gteq p q = (cmp p q \<ge> 0)"

definition eq :: "LogootPosition \<Rightarrow> LogootPosition \<Rightarrow> bool" where
  "eq p q = (cmp p q = 0)"

subsection \<open>Nodes\<close>

datatype NodeType = DATA | REMOVAL | DUMMY

text \<open>
  A left anchor is a position or the sentinel \<^verbatim>\<open>DocStart\<close>; a right anchor is a
  position or the sentinel \<^verbatim>\<open>DocEnd\<close>.
\<close>

datatype left_anchor_t = DocStart | LeftPos LogootPosition

datatype right_anchor_t = DocEnd | RightPos LogootPosition

text \<open>
  Nodes are JavaScript objects: they are shared between the tree, the arrays the merge
  algorithms build and each other's \<^verbatim>\<open>conflict_with\<close> sets, and they are mutated in
  place. A node is therefore referred to by its address (a natural number) in a store, and
  \<^verbatim>\<open>conflict_with\<close>, a JavaScript \<^verbatim>\<open>Set\<close>, is the list of its members in
  insertion order (the order \<^verbatim>\<open>forEach\<close> visits them).

  Field \<open>value\<close> is the local offset \<^verbatim>\<open>ldoc_start\<close> of the node.
\<close>

type_synonym ref = nat

record AnchorLogootNode =
  logoot_start :: LogootPosition
  node_length :: int
  type :: NodeType
  clk :: LogootInt
  "value" :: int
  left_anchor :: left_anchor_t
  right_anchor :: right_anchor_t
  conflict_with :: "ref list"

text \<open>
  Modelled from the spec: the derived accessors of class AnchorLogootNode (not in the
  file). \<^verbatim>\<open>logoot_end\<close> "equals logoot_start.offsetLowest(length)"; "for DATA nodes,
  ldoc_length = length; for REMOVAL/DUMMY, ldoc_length = 0";
  "ldoc_end = ldoc_start + ldoc_length"; \<^verbatim>\<open>true_left\<close> and \<^verbatim>\<open>true_right\<close> are
  the stored anchors.
\<close>

definition logoot_end :: "AnchorLogootNode \<Rightarrow> LogootPosition" where
  "logoot_end n = offsetLowest (logoot_start n) (node_length n)"

definition ldoc_start :: "AnchorLogootNode \<Rightarrow> int" where
  "ldoc_start n = value n"

definition ldoc_length :: "AnchorLogootNode \<Rightarrow> int" where
  "ldoc_length n = (if type n = DATA then node_length n else 0)"

definition ldoc_end :: "AnchorLogootNode \<Rightarrow> int" where
  "ldoc_end n = ldoc_start n + ldoc_length n"

definition true_left :: "AnchorLogootNode \<Rightarrow> left_anchor_t" where
  "true_left n = left_anchor n"

definition true_right :: "AnchorLogootNode \<Rightarrow> right_anchor_t" where
  "true_right n = right_anchor n"

subsection \<open>The document model and the tree\<close>

record LdmOptions =
  agressively_test_bst :: bool

text \<open>
  The state of a \<^verbatim>\<open>ListDocumentModel\<close>: the store of node objects, the tree as the
  in-order sequence of the nodes it holds, the next free address and the options.
\<close>

record ListDocumentModel =
  nodes :: "ref \<Rightarrow> AnchorLogootNode"
  bst :: "ref list"
  fresh :: ref
  ldm_opts :: LdmOptions

text \<open>
  Modelled from the spec: \<^verbatim>\<open>inorder_successor\<close> of a tree node (class DBst is not in
  the file): the next node of the in-order sequence; none for the last node and for a node
  that is not in the tree.
\<close>

fun successor_in :: "ref list \<Rightarrow> ref \<Rightarrow> ref option" where
  "successor_in [] r = None"
| "successor_in [x] r = None"
| "successor_in (x # y # xs) r = (if x = r then Some y else successor_in (y # xs) r)"

definition inorder_successor :: "ListDocumentModel \<Rightarrow> ref \<Rightarrow> ref option" where
  "inorder_successor m r = successor_in (bst m) r"

definition inorder_predecessor :: "ListDocumentModel \<Rightarrow> ref \<Rightarrow> ref option" where
  "inorder_predecessor m r = successor_in (rev (bst m)) r"

text \<open>
  Modelled from the spec: \<^verbatim>\<open>addSpaceBefore(delta, reroot)\<close> "adjusts aggregates so
  that ldoc_start of node and all successors shifts by delta". The re-rooting callback
  stores the root of the rebalanced tree and has no effect on the in-order sequence.
\<close>

fun shift_from :: "ref list \<Rightarrow> ref \<Rightarrow> int \<Rightarrow> (ref \<Rightarrow> AnchorLogootNode) \<Rightarrow> ref \<Rightarrow> AnchorLogootNode" where
  "shift_from [] r d h = h"
| "shift_from (x # xs) r d h =
     (if x = r
      then fold (\<lambda>y g. g(y := (g y)\<lparr>value := value (g y) + d\<rparr>)) (x # xs) h
      else shift_from xs r d h)"

definition addSpaceBefore :: "ref \<Rightarrow> int \<Rightarrow> ListDocumentModel \<Rightarrow> ListDocumentModel" where
  "addSpaceBefore r d m = m\<lparr>nodes := shift_from (bst m) r d (nodes m)\<rparr>"

text \<open>
  The bounds of a search range: \<open>L\<close> and \<open>G\<close> are the lesser and the greater end,
  \<open>C\<close> and \<open>O\<close> closed and open.
\<close>

datatype RangeBounds = LCGC | LOGC | LCGO | LOGO

text \<open>
  The operations of the classes that are not in the file and that run an algorithm of
  their own are parameters of the model:
  \<^item> \<open>bst_selfTest\<close> is \<^verbatim>\<open>DBst.selfTest\<close>; it returns the error it throws, if any;
  \<^item> \<open>bst_search m start\<close> is \<^verbatim>\<open>bst.search(new NumberRange(start, start, LOGO))\<close>: the
    nodes of the buckets \<open>lesser\<close> and \<open>greater\<close>;
  \<^item> \<open>prefSearch m lo hi bounds\<close> is \<^verbatim>\<open>bst.prefSearch\<close> on the range from the
    position \<open>lo\<close> to the position \<open>hi\<close> (an absent bound is \<^verbatim>\<open>undefined\<close>): the
    nodes of the buckets \<open>lesser\<close>, \<open>range\<close> and \<open>greater\<close>;
  \<^item> \<open>bst_add\<close> is \<^verbatim>\<open>DBst.add\<close>;
  \<^item> \<open>preferential_cmp\<close> is \<^verbatim>\<open>AnchorLogootNode.preferential_cmp\<close>;
  \<^item> \<open>sliceNodesIntoRanges boundaries nodes onSplit\<close> returns the ranges it slices the
    nodes into, or the error \<open>onSplit\<close> throws;
  \<^item> \<open>new_LogootPosition br len left right\<close> is the constructor
    \<^verbatim>\<open>new LogootPosition(br, len, left, right, branch_order)\<close>;
  \<^item> \<open>updateNeighborConflicts node last bstadd\<close> is
    \<^verbatim>\<open>node.updateNeighborConflicts(last, bstadd)\<close> with its boolean result.
\<close>

record env =
  bst_selfTest :: "ListDocumentModel \<Rightarrow> error option"
  bst_search :: "ListDocumentModel \<Rightarrow> int \<Rightarrow> ref list \<times> ref list"
  prefSearch :: "ListDocumentModel \<Rightarrow> LogootPosition option \<Rightarrow> LogootPosition option
      \<Rightarrow> RangeBounds \<Rightarrow> ref list \<times> ref list \<times> ref list"
  bst_add :: "ref \<Rightarrow> ListDocumentModel \<Rightarrow> ListDocumentModel"
  preferential_cmp :: "AnchorLogootNode \<Rightarrow> AnchorLogootNode \<Rightarrow> int"
  sliceNodesIntoRanges :: "LogootPosition list \<Rightarrow> ref list
      \<Rightarrow> (ref \<Rightarrow> ListDocumentModel \<Rightarrow> error + ListDocumentModel)
      \<Rightarrow> ListDocumentModel \<Rightarrow> error + (ref list list \<times> ListDocumentModel)"
  new_LogootPosition :: "BranchKey \<Rightarrow> int \<Rightarrow> LogootPosition option \<Rightarrow> LogootPosition option
      \<Rightarrow> error + LogootPosition"
  updateNeighborConflicts :: "ref \<Rightarrow> ref
      \<Rightarrow> (ref \<Rightarrow> ListDocumentModel \<Rightarrow> error + ListDocumentModel)
      \<Rightarrow> ListDocumentModel \<Rightarrow> error + (bool \<times> ListDocumentModel)"

text \<open>Updating one node object in place.\<close>

definition upd :: "ref \<Rightarrow> (AnchorLogootNode \<Rightarrow> AnchorLogootNode) \<Rightarrow> ListDocumentModel
    \<Rightarrow> ListDocumentModel" where
  "upd r f m = m\<lparr>nodes := (nodes m)(r := f (nodes m r))\<rparr>"

text \<open>
  A JavaScript \<^verbatim>\<open>Set\<close> of nodes as the list of its members in insertion order:
  \<^verbatim>\<open>add\<close> appends a node that is not a member yet, \<^verbatim>\<open>delete\<close> takes it out.
\<close>

definition set_add :: "ref list \<Rightarrow> ref \<Rightarrow> ref list" where
  "set_add s r = (if r \<in> set s then s else s @ [r])"

definition set_delete :: "ref list \<Rightarrow> ref \<Rightarrow> ref list" where
  "set_delete s r = removeAll r s"

section \<open>The operation buffer\<close>

datatype Operation =
    RemovalOperation int int
  | InsertionOperation int int int
  | MarkOperation int int bool

text \<open>
  \<^verbatim>\<open>class OperationBuffer\<close>. Its \<^verbatim>\<open>bst\<close> is the tree of the document model the
  buffer was created for (every \<^verbatim>\<open>new OperationBuffer\<close> of the file passes
  \<^verbatim>\<open>this.bst\<close>), so the methods take and return the model's state next to the buffer.
\<close>

record OperationBuffer =
  operations :: "Operation list"
  dummy_node :: "ref option"
  opts :: LdmOptions
  length_avail :: int

definition new_OperationBuffer :: "LdmOptions \<Rightarrow> int \<Rightarrow> OperationBuffer" where
  "new_OperationBuffer os avail =
     \<lparr>operations = [], dummy_node = None, opts = os, length_avail = avail\<rparr>"

text \<open>
  The tail shared by \<^verbatim>\<open>remove\<close> and \<^verbatim>\<open>insert\<close> after the operation has been
  pushed: the dummy node's value is moved by \<open>d\<close> when it lies at or after \<open>start\<close>,
  the successor of \<open>node\<close> is shifted by \<open>d\<close>, and the tree is tested when aggressive
  testing is on.
\<close>

definition mirror :: "env \<Rightarrow> ref \<Rightarrow> int \<Rightarrow> int \<Rightarrow> OperationBuffer \<Rightarrow> ListDocumentModel
    \<Rightarrow> error + (OperationBuffer \<times> ListDocumentModel)" where
  "mirror E node start d b m =
     (let m1 = (case dummy_node b of
                  None \<Rightarrow> m
                | Some dn \<Rightarrow>
                    if ldoc_start (nodes m dn) \<ge> start
                    then m\<lparr>nodes := (nodes m)(dn := (nodes m dn)\<lparr>value := value (nodes m dn) + d\<rparr>)\<rparr>
                    else m)
      in case inorder_successor m1 node of
           None \<Rightarrow> Inr (b, m1)
         | Some s \<Rightarrow>
             (let m2 = addSpaceBefore s d m1
              in if agressively_test_bst (opts b)
                 then (case bst_selfTest E m2 of
                         Some e \<Rightarrow> Inl e
                       | None \<Rightarrow> Inr (b, m2))
                 else Inr (b, m2)))"



definition remove :: "env \<Rightarrow> ref \<Rightarrow> int \<Rightarrow> int \<Rightarrow> OperationBuffer \<Rightarrow> ListDocumentModel
    \<Rightarrow> error + (OperationBuffer \<times> ListDocumentModel)" where
  "remove E node start len b m =
     (if len = 0 then Inr (b, m)
      else if start < 0
      then Inl (FatalError ''Attempted to perform removal operation with start < 0'')
      else if len < 0
      then Inl (FatalError ''Attempted to perform removal operation with length < 0'')
      else mirror E node start (- len)
             (b\<lparr>operations := operations b @ [RemovalOperation start len]\<rparr>) m)"

text \<open>
  The numbers of the file are JavaScript numbers, that is doubles; the offsets and lengths
  of the model are the integers among them. The sum of two of them is the double nearest
  to the exact sum: a double holds 53 significant bits, the bits in excess are rounded
  off, a tie goes to the even significand, and adding 0 changes nothing. The sum is exact
  as long as it stays below \<open>2 ^ 53\<close> in absolute value. \<open>excess_bits n\<close> is the
  number of bits \<open>n\<close> has beyond 53. (The exponent of a double is not bounded here: a
  sum beyond the largest double is a number above every double, as \<^verbatim>\<open>Infinity\<close> is.)
\<close>

fun excess_bits :: "nat \<Rightarrow> nat" where
  "excess_bits n = (if n < 2 ^ 53 then 0 else Suc (excess_bits (n div 2)))"

declare excess_bits.simps [simp del]

definition to_double :: "int \<Rightarrow> int" where
  "to_double x =
     (let n = nat \<bar>x\<bar>;
          e = excess_bits n;
          q = n div 2 ^ e;
          r = n mod 2 ^ e;
          q' = (if 2 ^ e < 2 * r \<or> (2 * r = 2 ^ e \<and> odd q) then q + 1 else q)
      in sgn x * int (q' * 2 ^ e))"

definition js_add :: "int \<Rightarrow> int \<Rightarrow> int" where
  "js_add a b = (if a = 0 then b else if b = 0 then a else to_double (a + b))"

text \<open>
  \<^verbatim>\<open>insert(node, start, offset, length)\<close>. The guard of the available length compares
  the sum \<^verbatim>\<open>offset + length\<close> as JavaScript computes it.
\<close>

definition insert :: "env \<Rightarrow> ref \<Rightarrow> int \<Rightarrow> int \<Rightarrow> int \<Rightarrow> OperationBuffer \<Rightarrow> ListDocumentModel
    \<Rightarrow> error + (OperationBuffer \<times> ListDocumentModel)" where
  "insert E node start offset len b m =
     (if len = 0 then Inr (b, m)
      else if start < 0
      then Inl (FatalError ''Attempted to perform insertion operation with start < 0'')
      else if len < 0
      then Inl (FatalError ''Attempted to perform insertion operation with length < 0'')
      else if js_add offset len > length_avail b
      then Inl (FatalError ''Attempted to perform insertion with offset outside available data'')
      else mirror E node start len
             (b\<lparr>operations := operations b @ [InsertionOperation start offset len]\<rparr>) m)"

section \<open>insertLocal\<close>

text \<open>The envelope \<^verbatim>\<open>insertLocal\<close> returns.\<close>

record LocalInsertion =
  left :: "LogootPosition option"
  right :: "LogootPosition option"
  ret_clk :: LogootInt
  ret_length :: int

text \<open>
  One round of the loop that derives the clock: a \<open>DATA\<close> node is skipped; another node
  whose clock is at least the running maximum raises it to that clock plus one.
\<close>

definition max_clock_step :: "LogootInt \<Rightarrow> AnchorLogootNode \<Rightarrow> LogootInt" where
  "max_clock_step max_clock node =
     (if type node = DATA then max_clock
      else if clk node \<ge> max_clock then clk node + 1
      else max_clock)"

text \<open>
  The local function \<^verbatim>\<open>search\<close>: the \<open>DATA\<close> node of a bucket, none when there
  is none, and an internal error at the second \<open>DATA\<close> node.
\<close>

fun search :: "AnchorLogootNode option \<Rightarrow> AnchorLogootNode list \<Rightarrow> error + AnchorLogootNode option" where
  "search data_node [] = Inr data_node"
| "search data_node (node # array) =
     (if type node = DATA
      then (case data_node of
              Some d \<Rightarrow> Inl (InternalError ''Multiple data nodes returned in position search'')
            | None \<Rightarrow> search (Some node) array)
      else search data_node array)"

text \<open>
  \<^verbatim>\<open>insertLocal(start, length)\<close>. The buckets \<open>lesser\<close> and \<open>greater\<close> are those
  of \<^verbatim>\<open>this.bst.search(new NumberRange(start, start, RangeBounds.LOGO))\<close>.
\<close>

definition insertLocal :: "env \<Rightarrow> ListDocumentModel \<Rightarrow> int \<Rightarrow> int \<Rightarrow> error + LocalInsertion" where
  "insertLocal E m start len =
     (if start < 0
      then Inl (TypeError ''Passed a start position that is less than zero'')
      else if len \<le> 0
      then Inl (TypeError ''Passed a length that is less than or equal to zero'')
      else
        (let buckets_lesser = map (nodes m) (fst (bst_search E m start));
             buckets_greater = map (nodes m) (snd (bst_search E m start));
             max_clock = foldl max_clock_step 0 (buckets_lesser @ buckets_greater)
         in case search None buckets_lesser of
              Inl e \<Rightarrow> Inl e
            | Inr lesser_node \<Rightarrow>
                (case (case lesser_node of
                         Some n \<Rightarrow> if ldoc_end n > start then Some n else None
                       | None \<Rightarrow> None) of
                   Some n \<Rightarrow>
                     (let pos = offsetLowest (logoot_start n) (start - ldoc_start n)
                      in Inr \<lparr>left = Some pos, right = Some pos,
                              ret_clk = max_clock, ret_length = len\<rparr>)
                 | None \<Rightarrow>
                     (case search None buckets_greater of
                        Inl e \<Rightarrow> Inl e
                      | Inr greater_node \<Rightarrow>
                          Inr \<lparr>left = map_option logoot_end lesser_node,
                               right = map_option logoot_start greater_node,
                               ret_clk = max_clock, ret_length = len\<rparr>))))"

text \<open>
  The nodes the clock is derived from: the nodes of both buckets that are not \<open>DATA\<close>.
\<close>

definition non_data_touching :: "env \<Rightarrow> ListDocumentModel \<Rightarrow> int \<Rightarrow> AnchorLogootNode list" where
  "non_data_touching E m start =
     filter (\<lambda>n. type n \<noteq> DATA)
       (map (nodes m) (fst (bst_search E m start) @ snd (bst_search E m start)))"


section \<open>The re-typing loop of removeLogoot\<close>

text \<open>
  The body of \<^verbatim>\<open>rm_range.forEach\<close> in \<^verbatim>\<open>removeLogoot(start, length, clk)\<close>. The
  clock of a node is a value of the node: \<^verbatim>\<open>node.clk.assign(clk)\<close> changes the clock of
  this node only.
\<close>

definition rm_gate :: "LogootPosition \<Rightarrow> LogootInt \<Rightarrow> AnchorLogootNode \<Rightarrow> bool" where
  "rm_gate start c n = (clk n \<le> c \<and> length (logoot_start n) = length start)"

definition rm_node :: "env \<Rightarrow> LogootPosition \<Rightarrow> LogootInt \<Rightarrow> ref
    \<Rightarrow> OperationBuffer \<times> ListDocumentModel \<Rightarrow> error + (OperationBuffer \<times> ListDocumentModel)" where
  "rm_node E start c node bm =
     (let b = fst bm; m = snd bm in
      if rm_gate start c (nodes m node)
      then (case remove E node (ldoc_start (nodes m node)) (ldoc_length (nodes m node)) b m of
              Inl e \<Rightarrow> Inl e
            | Inr (b', m') \<Rightarrow> Inr (b', upd node (\<lambda>n. n\<lparr>type := REMOVAL, clk := c\<rparr>) m'))
      else Inr (b, m))"

fun rm_loop :: "env \<Rightarrow> LogootPosition \<Rightarrow> LogootInt \<Rightarrow> ref list
    \<Rightarrow> OperationBuffer \<times> ListDocumentModel \<Rightarrow> error + (OperationBuffer \<times> ListDocumentModel)" where
  "rm_loop E start c [] bm = Inr bm"
| "rm_loop E start c (node # rm_range) bm =
     (case rm_node E start c node bm of
        Inl e \<Rightarrow> Inl e
      | Inr bm' \<Rightarrow> rm_loop E start c rm_range bm')"

section \<open>patchRemovalAnchors\<close>

text \<open>
  The body of \<^verbatim>\<open>scan_nodes.forEach\<close> in the branch of a node that is not \<open>DATA\<close>,
  for one member \<open>snode\<close> of the scan set. A member whose anchor is a sentinel has no
  method \<^verbatim>\<open>lt\<close> or \<^verbatim>\<open>gt\<close>, and the call throws.
\<close>

definition patch_visit :: "bool \<Rightarrow> ref \<Rightarrow> ref \<Rightarrow> ref list \<times> ListDocumentModel
    \<Rightarrow> error + (ref list \<times> ListDocumentModel)" where
  "patch_visit backwards node snode sm =
     (let scan_nodes = fst sm; m = snd sm in
      if backwards
      then (case true_left (nodes m snode) of
              DocStart \<Rightarrow> Inl (TypeError ''apos.gt is not a function'')
            | LeftPos apos \<Rightarrow>
                if gt apos (logoot_end (nodes m node))
                then Inr (set_delete scan_nodes snode, m)
                else
                  (let m1 = (if gt apos (logoot_start (nodes m node))
                             then upd snode (\<lambda>n. n\<lparr>left_anchor := LeftPos (logoot_start (nodes m node))\<rparr>) m
                             else m)
                   in Inr (scan_nodes,
                           upd node (\<lambda>n. n\<lparr>conflict_with := set_add (conflict_with n) snode\<rparr>) m1)))
      else (case true_right (nodes m snode) of
              DocEnd \<Rightarrow> Inl (TypeError ''apos.lt is not a function'')
            | RightPos apos \<Rightarrow>
                if lt apos (logoot_start (nodes m node))
                then Inr (set_delete scan_nodes snode, m)
                else
                  (let m1 = (if lt apos (logoot_end (nodes m node))
                             then upd snode (\<lambda>n. n\<lparr>right_anchor := RightPos (logoot_end (nodes m node))\<rparr>) m
                             else m)
                   in Inr (scan_nodes,
                           upd node (\<lambda>n. n\<lparr>conflict_with := set_add (conflict_with n) snode\<rparr>) m1))))"

text \<open>
  \<^verbatim>\<open>scan_nodes.forEach\<close> visits the members the set had when the loop started, in
  insertion order; the only member the body deletes is the one it visits.
\<close>

fun patch_scan :: "bool \<Rightarrow> ref \<Rightarrow> ref list \<Rightarrow> ref list \<times> ListDocumentModel
    \<Rightarrow> error + (ref list \<times> ListDocumentModel)" where
  "patch_scan backwards node [] sm = Inr sm"
| "patch_scan backwards node (snode # rest) sm =
     (case patch_visit backwards node snode sm of
        Inl e \<Rightarrow> Inl e
      | Inr sm' \<Rightarrow> patch_scan backwards node rest sm')"

text \<open>
  The scan set a \<open>DATA\<close> node starts: the node's \<^verbatim>\<open>conflict_with\<close> and the node,
  without the members whose anchor in the direction of the pass is the sentinel.
\<close>

definition data_scan_set :: "bool \<Rightarrow> ref \<Rightarrow> ListDocumentModel \<Rightarrow> ref list" where
  "data_scan_set backwards node m =
     filter (\<lambda>snode.
         \<not> (if backwards then true_left (nodes m snode) = DocStart
            else true_right (nodes m snode) = DocEnd))
       (set_add (conflict_with (nodes m node)) node)"

fun patch_loop :: "bool \<Rightarrow> ref list \<Rightarrow> ref list \<times> ListDocumentModel
    \<Rightarrow> error + (ref list \<times> ListDocumentModel)" where
  "patch_loop backwards [] sm = Inr sm"
| "patch_loop backwards (node # rng) sm =
     (if type (nodes (snd sm) node) = DATA
      then patch_loop backwards rng (data_scan_set backwards node (snd sm), snd sm)
      else (case patch_scan backwards node (fst sm) sm of
              Inl e \<Rightarrow> Inl e
            | Inr sm' \<Rightarrow> patch_loop backwards rng sm'))"

definition patchRemovalAnchors :: "ref list \<Rightarrow> bool \<Rightarrow> ListDocumentModel \<Rightarrow> error + ListDocumentModel" where
  "patchRemovalAnchors rng backwards m =
     (case patch_loop backwards (if backwards then rev rng else rng) ([], m) of
        Inl e \<Rightarrow> Inl e
      | Inr sm \<Rightarrow> Inr (snd sm))"

section \<open>Helpers of the merge algorithms\<close>

text \<open>
  Modelled from the spec: the constructor of class AnchorLogootNode (not in the file),
  called with a position, a length and optionally a type and a clock. A fresh node has
  local offset 0, the widest anchors and an empty \<^verbatim>\<open>conflict_with\<close>.
\<close>

definition new_AnchorLogootNode :: "LogootPosition \<Rightarrow> int \<Rightarrow> NodeType \<Rightarrow> LogootInt \<Rightarrow> AnchorLogootNode" where
  "new_AnchorLogootNode pos len ty c =
     \<lparr>logoot_start = pos, node_length = len, type = ty, clk = c, value = 0,
      left_anchor = DocStart, right_anchor = DocEnd, conflict_with = []\<rparr>"

text \<open>A new object gets the next free address of the store.\<close>

definition alloc :: "AnchorLogootNode \<Rightarrow> ListDocumentModel \<Rightarrow> ref \<times> ListDocumentModel" where
  "alloc n m = (fresh m, m\<lparr>nodes := (nodes m)(fresh m := n), fresh := Suc (fresh m)\<rparr>)"

text \<open>
  Modelled from the spec: \<^verbatim>\<open>reduceLeft(pos)\<close>: "if pos > left_anchor, set
  left_anchor = pos; else no-op", and \<^verbatim>\<open>reduceRight(pos)\<close> symmetrically; the sentinels
  are the widest values.
\<close>

definition reduceLeft :: "LogootPosition \<Rightarrow> AnchorLogootNode \<Rightarrow> AnchorLogootNode" where
  "reduceLeft pos n =
     (case left_anchor n of
        DocStart \<Rightarrow> n\<lparr>left_anchor := LeftPos pos\<rparr>
      | LeftPos a \<Rightarrow> if gt pos a then n\<lparr>left_anchor := LeftPos pos\<rparr> else n)"

definition reduceRight :: "LogootPosition \<Rightarrow> AnchorLogootNode \<Rightarrow> AnchorLogootNode" where
  "reduceRight pos n =
     (case right_anchor n of
        DocEnd \<Rightarrow> n\<lparr>right_anchor := RightPos pos\<rparr>
      | RightPos a \<Rightarrow> if lt pos a then n\<lparr>right_anchor := RightPos pos\<rparr> else n)"

text \<open>
  Modelled from the spec: \<^verbatim>\<open>pos.l(level)[0].assign(v)\<close>, the assignment of the atom of
  one level of a position.
\<close>

definition set_atom :: "LogootPosition \<Rightarrow> nat \<Rightarrow> LogootInt \<Rightarrow> LogootPosition" where
  "set_atom p lvl v = (if lvl < length p then p[lvl := (v, snd (p ! lvl))] else p)"

text \<open>
  \<^verbatim>\<open>Array.prototype.sort\<close> with a comparator is stable: an insertion sort that puts an
  element after the elements it does not precede.
\<close>

fun insort_cmp :: "('a \<Rightarrow> 'a \<Rightarrow> int) \<Rightarrow> 'a \<Rightarrow> 'a list \<Rightarrow> 'a list" where
  "insort_cmp c x [] = [x]"
| "insort_cmp c x (y # ys) = (if c x y < 0 then x # y # ys else y # insort_cmp c x ys)"

definition sort_cmp :: "('a \<Rightarrow> 'a \<Rightarrow> int) \<Rightarrow> 'a list \<Rightarrow> 'a list" where
  "sort_cmp c xs = foldl (\<lambda>sorted x. insort_cmp c x sorted) [] xs"

text \<open>
  The function \<^verbatim>\<open>bstadd\<close> of \<^verbatim>\<open>insertLogoot\<close> and \<^verbatim>\<open>removeLogoot\<close>: it adds
  the node to the tree and, under aggressive testing, tests the tree.
\<close>

definition bstadd :: "env \<Rightarrow> ref \<Rightarrow> ListDocumentModel \<Rightarrow> error + ListDocumentModel" where
  "bstadd E n m =
     (let m1 = bst_add E n m
      in if agressively_test_bst (ldm_opts m)
         then (case bst_selfTest E m1 of Some e \<Rightarrow> Inl e | None \<Rightarrow> Inr m1)
         else Inr m1)"

text \<open>
  The nodes a walk along \<^verbatim>\<open>inorder_successor\<close> (\<^verbatim>\<open>inorder_predecessor\<close>) visits from
  a node on, the node first. A node that is not in the tree has no neighbour.
\<close>

definition succ_chain :: "ListDocumentModel \<Rightarrow> ref \<Rightarrow> ref list" where
  "succ_chain m r = (if r \<in> set (bst m) then dropWhile (\<lambda>x. x \<noteq> r) (bst m) else [r])"

definition pred_chain :: "ListDocumentModel \<Rightarrow> ref \<Rightarrow> ref list" where
  "pred_chain m r = (if r \<in> set (bst m) then dropWhile (\<lambda>x. x \<noteq> r) (rev (bst m)) else [r])"

section \<open>constructSkipRanges\<close>

record SkipRanges =
  anchor_left :: "ref option"
  nc_left :: "ref list"
  skip_ranges :: "ref list"
  nc_right :: "ref list"
  anchor_right :: "ref option"

text \<open>The local function \<^verbatim>\<open>lowestData\<close>: the first \<open>DATA\<close> node of an array.\<close>

fun lowestData :: "ListDocumentModel \<Rightarrow> ref list \<Rightarrow> ref option" where
  "lowestData m [] = None"
| "lowestData m (r # rs) = (if type (nodes m r) = DATA then Some r else lowestData m rs)"

text \<open>
  The local offset of the dummy node: the end of the last skip range, else the start of
  the first node to the right, else the end of the last node to the left, else the end of
  the last node of the bucket \<open>lesser\<close>, else the offset of a fresh node.
\<close>

definition dummy_value :: "ListDocumentModel \<Rightarrow> ref list \<Rightarrow> ref list \<Rightarrow> ref list \<Rightarrow> ref list \<Rightarrow> int" where
  "dummy_value m skip ncr ncl buckets_lesser =
     (if skip \<noteq> [] then ldoc_end (nodes m (last skip))
      else if ncr \<noteq> [] then ldoc_start (nodes m (hd ncr))
      else if ncl \<noteq> [] then ldoc_end (nodes m (last ncl))
      else if buckets_lesser \<noteq> [] then ldoc_end (nodes m (last buckets_lesser))
      else value (new_AnchorLogootNode [] 0 DUMMY 0))"

definition constructSkipRanges :: "env \<Rightarrow> ListDocumentModel \<Rightarrow> LogootPosition option
    \<Rightarrow> LogootPosition \<Rightarrow> LogootPosition \<Rightarrow> LogootPosition option
    \<Rightarrow> error + (SkipRanges \<times> ListDocumentModel)" where
  "constructSkipRanges E m left_p start endp right_p =
     (let buckets = prefSearch E m (map_option (\<lambda>l. inverseOffsetLowest l 1) left_p) right_p LOGO;
          buckets_lesser = fst buckets;
          blob = sort_cmp (\<lambda>a b. preferential_cmp E (nodes m a) (nodes m b))
                   (fst buckets @ fst (snd buckets) @ snd (snd buckets))
      in case sliceNodesIntoRanges E
                [case left_p of Some l \<Rightarrow> l | None \<Rightarrow> start, start, endp,
                 case right_p of Some r \<Rightarrow> r | None \<Rightarrow> endp]
                blob (\<lambda>n s. Inr (bst_add E n s)) m of
           Inl e \<Rightarrow> Inl e
         | Inr (ranges, m1) \<Rightarrow>
             (case ranges of
                [aleft0, ncl0, skip0, ncr0, aright0] \<Rightarrow>
                  (let ncl = (if left_p = None then ncl0 @ aleft0 else ncl0);
                       aleft = (if left_p = None then [] else aleft0);
                       ncr = (if right_p = None then ncr0 @ aright0 else ncr0);
                       aright = (if right_p = None then [] else aright0);
                       need_dummy = (skip0 = [] \<or> lt (logoot_end (nodes m1 (last skip0))) endp);
                       dummy = (new_AnchorLogootNode endp 0 DUMMY 0)
                                 \<lparr>value := dummy_value m1 skip0 ncr ncl buckets_lesser\<rparr>;
                       m2 = (if need_dummy then snd (alloc dummy m1) else m1);
                       skip = (if need_dummy then skip0 @ [fst (alloc dummy m1)] else skip0);
                       al = lowestData m2 (rev aleft);
                       ar = lowestData m2 aright
                   in Inr (\<lparr>anchor_left =
                               (case left_p of
                                  None \<Rightarrow> None
                                | Some l \<Rightarrow>
                                    (case al of
                                       None \<Rightarrow> None
                                     | Some a \<Rightarrow> if eq (logoot_end (nodes m2 a)) l then Some a else None)),
                            nc_left = ncl,
                            skip_ranges = skip,
                            nc_right = ncr,
                            anchor_right =
                               (case right_p of
                                  None \<Rightarrow> None
                                | Some r \<Rightarrow>
                                    (case ar of
                                       None \<Rightarrow> None
                                     | Some a \<Rightarrow> if eq (logoot_start (nodes m2 a)) r then Some a else None))\<rparr>,
                           m2))
              | _ \<Rightarrow> Inl (TypeError ''sliceNodesIntoRanges did not return five ranges'')))"

section \<open>fillSkipRanges\<close>

text \<open>
  The state of the \<^verbatim>\<open>flatMap\<close> over \<^verbatim>\<open>skip_ranges\<close>: \<^verbatim>\<open>last_level_pos\<close>, the
  nodes returned so far, the operation buffer and the model.
\<close>

type_synonym fill_state = "LogootInt \<times> ref list \<times> OperationBuffer \<times> ListDocumentModel"

text \<open>The first half of the body: a new node fills the empty space before \<open>node\<close>.\<close>

definition fill_space :: "env \<Rightarrow> LogootPosition \<Rightarrow> LogootInt \<Rightarrow> NodeType
    \<Rightarrow> (ref \<Rightarrow> ListDocumentModel \<Rightarrow> error + ListDocumentModel) \<Rightarrow> ref \<Rightarrow> LogootInt
    \<Rightarrow> OperationBuffer \<Rightarrow> ListDocumentModel
    \<Rightarrow> error + (ref option \<times> OperationBuffer \<times> ListDocumentModel)" where
  "fill_space E start c ty add node last_level_pos b m =
     (let level = levels start;
          start_int = l_atom start level;
          space_avail = l_atom (logoot_start (nodes m node)) level - last_level_pos
      in if space_avail > 0
         then
           (let nstart = set_atom start level last_level_pos;
                offset = last_level_pos - start_int;
                nnode = fst (alloc ((new_AnchorLogootNode nstart space_avail ty c)
                          \<lparr>value := ldoc_start (nodes m node),
                            left_anchor := DocStart, right_anchor := DocEnd\<rparr>) m);
                m1 = snd (alloc ((new_AnchorLogootNode nstart space_avail ty c)
                          \<lparr>value := ldoc_start (nodes m node),
                            left_anchor := DocStart, right_anchor := DocEnd\<rparr>) m)
            in case add nnode m1 of
                 Inl e \<Rightarrow> Inl e
               | Inr m2 \<Rightarrow>
                   (case insert E nnode (ldoc_start (nodes m2 nnode)) offset
                           (ldoc_length (nodes m2 nnode)) b m2 of
                      Inl e \<Rightarrow> Inl e
                    | Inr (b3, m3) \<Rightarrow> Inr (Some nnode, b3, m3)))
         else Inr (None, b, m))"

text \<open>The second half: the new clock and type are written on top of \<open>node\<close>.\<close>

definition fill_existing :: "env \<Rightarrow> LogootPosition \<Rightarrow> LogootInt \<Rightarrow> NodeType \<Rightarrow> ref
    \<Rightarrow> OperationBuffer \<Rightarrow> ListDocumentModel \<Rightarrow> error + (OperationBuffer \<times> ListDocumentModel)" where
  "fill_existing E start c ty node b m =
     (let level = levels start;
          start_int = l_atom start level
      in if type (nodes m node) \<noteq> DUMMY
            \<and> levels (logoot_start (nodes m node)) = level
            \<and> clk (nodes m node) \<le> c
         then
           (let offset = l_atom (logoot_start (nodes m node)) level - start_int;
                m1 = upd node (\<lambda>n. n\<lparr>clk := c\<rparr>) m
            in case remove E node (ldoc_start (nodes m1 node)) (ldoc_length (nodes m1 node)) b m1 of
                 Inl e \<Rightarrow> Inl e
               | Inr (b2, m2) \<Rightarrow>
                   (let m3 = upd node (\<lambda>n. n\<lparr>type := ty\<rparr>) m2
                    in insert E node (ldoc_start (nodes m3 node)) offset
                         (ldoc_length (nodes m3 node)) b2 m3))
         else Inr (b, m))"

definition fill_node :: "env \<Rightarrow> LogootPosition \<Rightarrow> LogootInt \<Rightarrow> NodeType
    \<Rightarrow> (ref \<Rightarrow> ListDocumentModel \<Rightarrow> error + ListDocumentModel) \<Rightarrow> ref
    \<Rightarrow> fill_state \<Rightarrow> error + fill_state" where
  "fill_node E start c ty add node st =
     (case st of (last_level_pos, out, b, m) \<Rightarrow>
        (case fill_space E start c ty add node last_level_pos b m of
           Inl e \<Rightarrow> Inl e
         | Inr (nnode, b1, m1) \<Rightarrow>
             (case fill_existing E start c ty node b1 m1 of
                Inl e \<Rightarrow> Inl e
              | Inr (b2, m2) \<Rightarrow>
                  Inr (l_atom (logoot_end (nodes m2 node)) (levels start),
                       out @ (case nnode of Some n \<Rightarrow> [n] | None \<Rightarrow> [])
                           @ (if type (nodes m2 node) \<noteq> DUMMY then [node] else []),
                       b2, m2))))"

fun fill_loop :: "env \<Rightarrow> LogootPosition \<Rightarrow> LogootInt \<Rightarrow> NodeType
    \<Rightarrow> (ref \<Rightarrow> ListDocumentModel \<Rightarrow> error + ListDocumentModel) \<Rightarrow> ref list
    \<Rightarrow> fill_state \<Rightarrow> error + fill_state" where
  "fill_loop E start c ty add [] st = Inr st"
| "fill_loop E start c ty add (node # rest) st =
     (case fill_node E start c ty add node st of
        Inl e \<Rightarrow> Inl e
      | Inr st' \<Rightarrow> fill_loop E start c ty add rest st')"

definition fillSkipRanges :: "env \<Rightarrow> LogootPosition \<Rightarrow> LogootInt \<Rightarrow> NodeType \<Rightarrow> ref list
    \<Rightarrow> OperationBuffer \<Rightarrow> (ref \<Rightarrow> ListDocumentModel \<Rightarrow> error + ListDocumentModel)
    \<Rightarrow> ListDocumentModel \<Rightarrow> error + (ref list \<times> OperationBuffer \<times> ListDocumentModel)" where
  "fillSkipRanges E start c ty skip opbuf add m =
     (case fill_loop E start c ty add skip (l_atom start (levels start), [], opbuf, m) of
        Inl e \<Rightarrow> Inl e
      | Inr st \<Rightarrow> Inr (snd st))"

section \<open>linkFilledSkipRanges\<close>

text \<open>
  The state of the \<^verbatim>\<open>forEach\<close>: \<^verbatim>\<open>last_level_anchor\<close>, \<^verbatim>\<open>last_node_to_anchor\<close>
  and the model.
\<close>

fun link_loop :: "nat \<Rightarrow> ref list \<Rightarrow> LogootPosition option \<times> ref option \<times> ListDocumentModel
    \<Rightarrow> LogootPosition option \<times> ref option \<times> ListDocumentModel" where
  "link_loop alvl [] st = st"
| "link_loop alvl (node # rest) st =
     (case st of (last_level_anchor, last_node_to_anchor, m) \<Rightarrow>
        (let m1 = (case last_level_anchor of
                     Some a \<Rightarrow> if levels a = alvl then upd node (reduceLeft a) m else m
                   | None \<Rightarrow> m);
             m2 = (case last_node_to_anchor of
                     Some p \<Rightarrow>
                       if levels (logoot_start (nodes m1 node)) = alvl
                       then upd p (reduceRight (logoot_start (nodes m1 node))) m1
                       else m1
                   | None \<Rightarrow> m1)
         in link_loop alvl rest (Some (logoot_end (nodes m2 node)), Some node, m2)))"

definition linkFilledSkipRanges :: "LogootPosition option \<Rightarrow> LogootPosition option \<Rightarrow> ref list
    \<Rightarrow> ListDocumentModel \<Rightarrow> ListDocumentModel" where
  "linkFilledSkipRanges left_p right_p filled_skip_ranges m =
     (let alvl = (case left_p of
                    None \<Rightarrow> (case right_p of None \<Rightarrow> 0 | Some r \<Rightarrow> levels r)
                  | Some l \<Rightarrow> (case right_p of None \<Rightarrow> levels l | Some r \<Rightarrow> min (levels l) (levels r)));
          st = link_loop alvl
                 (filter (\<lambda>n. levels (logoot_start (nodes m n)) = alvl \<and> type (nodes m n) = DATA)
                    filled_skip_ranges)
                 (left_p, None, m)
      in case st of (last_level_anchor, last_node_to_anchor, m1) \<Rightarrow>
           (case last_node_to_anchor of
              None \<Rightarrow> m1
            | Some p \<Rightarrow> (case right_p of None \<Rightarrow> m1 | Some r \<Rightarrow> upd p (reduceRight r) m1)))"

section \<open>fillRangeConflicts\<close>

text \<open>
  One sweep of \<^verbatim>\<open>cfupdate\<close> inside \<^verbatim>\<open>catchBreak\<close>: the sweep stops at the first
  node whose \<^verbatim>\<open>updateNeighborConflicts\<close> returns false.
\<close>

fun cf_sweep :: "env \<Rightarrow> (ref \<Rightarrow> ListDocumentModel \<Rightarrow> error + ListDocumentModel) \<Rightarrow> ref option
    \<Rightarrow> ref list \<Rightarrow> ListDocumentModel \<Rightarrow> error + ListDocumentModel" where
  "cf_sweep E add lst [] m = Inr m"
| "cf_sweep E add lst (node # rest) m =
     (case lst of
        None \<Rightarrow> cf_sweep E add (Some node) rest m
      | Some l \<Rightarrow>
          (case updateNeighborConflicts E node l add m of
             Inl e \<Rightarrow> Inl e
           | Inr (continue, m1) \<Rightarrow>
               if continue then cf_sweep E add (Some node) rest m1 else Inr m1))"

text \<open>
  \<^verbatim>\<open>range.reverse()\<close> reverses the array in place and the function does not reverse it
  back, so the caller's array is reversed when the function returns: the array is
  returned next to the model.
\<close>

definition fillRangeConflicts :: "env \<Rightarrow> ref option \<Rightarrow> ref option \<Rightarrow> ref list
    \<Rightarrow> (ref \<Rightarrow> ListDocumentModel \<Rightarrow> error + ListDocumentModel)
    \<Rightarrow> ListDocumentModel \<Rightarrow> error + (ref list \<times> ListDocumentModel)" where
  "fillRangeConflicts E nl_lesser nl_greater rng add m =
     (case cf_sweep E add nl_lesser rng m of
        Inl e \<Rightarrow> Inl e
      | Inr m1 \<Rightarrow>
          (case cf_sweep E add nl_greater (rev rng) m1 of
             Inl e \<Rightarrow> Inl e
           | Inr m2 \<Rightarrow> Inr (rev rng, m2)))"

section \<open>insertLogoot\<close>

definition createScanset :: "ListDocumentModel \<Rightarrow> ref \<Rightarrow> ref list" where
  "createScanset m node = set_add (conflict_with (nodes m node)) node"

text \<open>
  The loop over the scan set of a neighbour: a member whose left anchor is the end of
  \<open>target\<close> reduces the right anchor of \<open>target\<close> to its own start.
\<close>

fun tighten :: "ref \<Rightarrow> ref list \<Rightarrow> ListDocumentModel \<Rightarrow> ListDocumentModel" where
  "tighten target [] m = m"
| "tighten target (node # rest) m =
     tighten target rest
       (case true_left (nodes m node) of
          DocStart \<Rightarrow> m
        | LeftPos l \<Rightarrow>
            if eq l (logoot_end (nodes m target))
            then upd target (reduceRight (logoot_start (nodes m node))) m
            else m)"

text \<open>
  The two \<^verbatim>\<open>every\<close> loops that record a filled node in the \<^verbatim>\<open>conflict_with\<close> of
  the nodes to the left and to the right.
\<close>

fun every_left :: "ref \<Rightarrow> LogootPosition option \<Rightarrow> ref list \<Rightarrow> ListDocumentModel \<Rightarrow> ListDocumentModel" where
  "every_left f stoppos [] m = m"
| "every_left f stoppos (node # rest) m =
     (let m1 = upd node (\<lambda>n. n\<lparr>conflict_with := set_add (conflict_with n) f\<rparr>) m
      in if (case stoppos of Some s \<Rightarrow> lteq (logoot_end (nodes m1 node)) s | None \<Rightarrow> False)
         then m1
         else every_left f stoppos rest m1)"

fun every_right :: "ref \<Rightarrow> LogootPosition option \<Rightarrow> ref list \<Rightarrow> ListDocumentModel \<Rightarrow> ListDocumentModel" where
  "every_right f stoppos [] m = m"
| "every_right f stoppos (node # rest) m =
     (if (case stoppos of Some s \<Rightarrow> gteq (logoot_start (nodes m node)) s | None \<Rightarrow> False)
      then m
      else every_right f stoppos rest
             (upd node (\<lambda>n. n\<lparr>conflict_with := set_add (conflict_with n) f\<rparr>) m))"

text \<open>
  The \<^verbatim>\<open>while\<close> loops that clear an anchor node out of the \<^verbatim>\<open>conflict_with\<close> sets
  along a walk through the tree, up to the first node that does not have it.
\<close>

fun clear_conflicts :: "ref \<Rightarrow> ref list \<Rightarrow> ListDocumentModel \<Rightarrow> ListDocumentModel" where
  "clear_conflicts a [] m = m"
| "clear_conflicts a (node # rest) m =
     (if a \<in> set (conflict_with (nodes m node))
      then clear_conflicts a rest
             (upd node (\<lambda>n. n\<lparr>conflict_with := set_delete (conflict_with n) a\<rparr>) m)
      else m)"

definition opt_list :: "'a option \<Rightarrow> 'a list" where
  "opt_list x = (case x of None \<Rightarrow> [] | Some y \<Rightarrow> [y])"

text \<open>
  The part of \<^verbatim>\<open>insertLogoot\<close> after \<^verbatim>\<open>fillRangeConflicts\<close>. \<open>filled\<close> is
  \<^verbatim>\<open>filled_skip_ranges\<close> as that call left it, \<open>first_node\<close> and \<open>last_node\<close> are the
  constants taken before it.
\<close>

definition finish_insert :: "SkipRanges \<Rightarrow> LogootPosition \<Rightarrow> LogootPosition \<Rightarrow> ref option \<Rightarrow> ref option
    \<Rightarrow> ref option \<Rightarrow> ref option \<Rightarrow> ref list \<Rightarrow> ListDocumentModel \<Rightarrow> error + ListDocumentModel" where
  "finish_insert sr start endp nl_lesser nl_greater first_node last_node filled m =
     (let m1 = (case filled of
                  [] \<Rightarrow> m
                | f0 # _ \<Rightarrow>
                    every_left f0
                      (case first_node of
                         None \<Rightarrow> None
                       | Some fn \<Rightarrow> (case true_left (nodes m fn) of
                                       DocStart \<Rightarrow> None | LeftPos p \<Rightarrow> Some p))
                      (rev (nc_left sr)) m);
          m2 = (case filled of
                  [] \<Rightarrow> m1
                | _ # _ \<Rightarrow>
                    every_right (last filled)
                      (case last_node of
                         None \<Rightarrow> None
                       | Some ln \<Rightarrow> (case true_right (nodes m1 ln) of
                                       DocEnd \<Rightarrow> None | RightPos p \<Rightarrow> Some p))
                      (nc_right sr) m1);
          m3 = (case anchor_left sr of
                  None \<Rightarrow> m2
                | Some al \<Rightarrow>
                    (let m' = upd al (reduceRight start) m2
                     in case filled of
                          [] \<Rightarrow> m'
                        | f0 # _ \<Rightarrow> clear_conflicts al (succ_chain m' f0) m'));
          m4 = (case anchor_right sr of
                  None \<Rightarrow> m3
                | Some ar \<Rightarrow>
                    (let m' = upd ar (reduceLeft endp) m3
                     in case filled of
                          [] \<Rightarrow> m'
                        | _ # _ \<Rightarrow> clear_conflicts ar (pred_chain m' (last filled)) m'));
          rng = opt_list nl_lesser @ filled @ opt_list nl_greater
      in case patchRemovalAnchors rng False m4 of
           Inl e \<Rightarrow> Inl e
         | Inr m5 \<Rightarrow> patchRemovalAnchors rng True m5)"

definition insertLogoot :: "env \<Rightarrow> ListDocumentModel \<Rightarrow> BranchKey \<Rightarrow> LogootPosition option
    \<Rightarrow> LogootPosition option \<Rightarrow> int \<Rightarrow> LogootInt
    \<Rightarrow> error + (Operation list \<times> ListDocumentModel)" where
  "insertLogoot E m br left_p right_p len c =
     (case new_LogootPosition E br len left_p right_p of
        Inl e \<Rightarrow> Inl e
      | Inr start \<Rightarrow>
          (case constructSkipRanges E m left_p start (offsetLowest start len) right_p of
             Inl e \<Rightarrow> Inl e
           | Inr (sr, m1) \<Rightarrow>
               (let opbuf0 = new_OperationBuffer (ldm_opts m1) len;
                    opbuf = (if type (nodes m1 (last (skip_ranges sr))) = DUMMY
                             then opbuf0\<lparr>dummy_node := Some (last (skip_ranges sr))\<rparr>
                             else opbuf0)
                in case fillSkipRanges E start c DATA (skip_ranges sr) opbuf (bstadd E) m1 of
                     Inl e \<Rightarrow> Inl e
                   | Inr (filled_skip_ranges, opbuf1, m2) \<Rightarrow>
                       (let m3 = linkFilledSkipRanges left_p right_p filled_skip_ranges m2;
                            nl_lesser = (if nc_left sr \<noteq> [] then Some (last (nc_left sr))
                                         else anchor_left sr);
                            nl_greater = (if nc_right sr \<noteq> [] then Some (hd (nc_right sr))
                                          else anchor_right sr);
                            first_node = (if filled_skip_ranges = [] then None
                                          else Some (hd filled_skip_ranges));
                            last_node = (if filled_skip_ranges = [] then None
                                         else Some (last filled_skip_ranges));
                            m4 = (case nl_lesser of
                                    None \<Rightarrow> m3
                                  | Some nl \<Rightarrow>
                                      (case first_node of
                                         None \<Rightarrow> m3
                                       | Some fn \<Rightarrow> tighten fn (createScanset m3 nl) m3));
                            m5 = (case nl_greater of
                                    None \<Rightarrow> m4
                                  | Some ng \<Rightarrow>
                                      (case last_node of
                                         None \<Rightarrow> m4
                                       | Some ln \<Rightarrow> tighten ln (createScanset m4 ng) m4))
                        in case fillRangeConflicts E nl_lesser nl_greater filled_skip_ranges
                                  (bstadd E) m5 of
                             Inl e \<Rightarrow> Inl e
                           | Inr (filled, m6) \<Rightarrow>
                               (case finish_insert sr start (offsetLowest start len) nl_lesser
                                       nl_greater first_node last_node filled m6 of
                                  Inl e \<Rightarrow> Inl e
                                | Inr m7 \<Rightarrow> Inr (operations opbuf1, m7))))))"

section \<open>removeLogoot\<close>

text \<open>
  The two \<^verbatim>\<open>while\<close> loops that grow \<^verbatim>\<open>lesser\<close> backwards and \<^verbatim>\<open>greater\<close>
  forwards: as long as the outermost node of the array is a \<open>REMOVAL\<close> and has a
  neighbour in the tree, the neighbour joins the array. \<open>neighbours\<close> are the nodes the
  walk meets, nearest first.
\<close>

fun grow_lesser :: "ListDocumentModel \<Rightarrow> ref list \<Rightarrow> ref list \<Rightarrow> ref list" where
  "grow_lesser m neighbours [] = []"
| "grow_lesser m [] (x # lesser) = x # lesser"
| "grow_lesser m (p # neighbours) (x # lesser) =
     (if type (nodes m x) = REMOVAL then grow_lesser m neighbours (p # x # lesser)
      else x # lesser)"

fun grow_greater :: "ListDocumentModel \<Rightarrow> ref list \<Rightarrow> ref list \<Rightarrow> ref list" where
  "grow_greater m [] gs = gs"
| "grow_greater m (p # neighbours) gs =
     (if gs \<noteq> [] \<and> type (nodes m (last gs)) = REMOVAL
      then grow_greater m neighbours (gs @ [p])
      else gs)"

text \<open>
  The local function \<^verbatim>\<open>fixConflicts\<close> of \<^verbatim>\<open>patchNewRemovalAnchors\<close>, an
  \<^verbatim>\<open>every\<close> over \<^verbatim>\<open>rm_nodes\<close>. It runs right after the anchor of \<open>node\<close> has been
  reduced, so that anchor is a position.
\<close>

fun fixConflicts :: "bool \<Rightarrow> ref \<Rightarrow> ref list \<Rightarrow> ListDocumentModel \<Rightarrow> ListDocumentModel" where
  "fixConflicts backwards node [] m = m"
| "fixConflicts backwards node (cnode # rm_nodes) m =
     (if node \<notin> set (conflict_with (nodes m cnode)) then m
      else fixConflicts backwards node rm_nodes
             (if backwards
              then (case true_right (nodes m node) of
                      DocEnd \<Rightarrow> m
                    | RightPos p \<Rightarrow>
                        if gteq (logoot_start (nodes m cnode)) p
                        then upd cnode (\<lambda>n. n\<lparr>conflict_with := set_delete (conflict_with n) node\<rparr>) m
                        else m)
              else (case true_left (nodes m node) of
                      DocStart \<Rightarrow> m
                    | LeftPos p \<Rightarrow>
                        if lteq (logoot_end (nodes m cnode)) p
                        then upd cnode (\<lambda>n. n\<lparr>conflict_with := set_delete (conflict_with n) node\<rparr>) m
                        else m)))"

text \<open>The body of \<^verbatim>\<open>scan_nodes.forEach\<close> for a node that is not \<open>DATA\<close>.\<close>

fun new_removal_scan :: "bool \<Rightarrow> ref \<Rightarrow> ref list \<Rightarrow> ref list \<Rightarrow> ListDocumentModel \<Rightarrow> ListDocumentModel" where
  "new_removal_scan backwards node rm_nodes [] m = m"
| "new_removal_scan backwards node rm_nodes (snode # rest) m =
     new_removal_scan backwards node rm_nodes rest
       (if backwards
        then (case true_left (nodes m snode) of
                DocStart \<Rightarrow> m
              | LeftPos l \<Rightarrow>
                  if eq l (logoot_end (nodes m node))
                  then fixConflicts backwards node rm_nodes
                         (upd node (reduceRight (logoot_start (nodes m snode))) m)
                  else m)
        else (case true_right (nodes m snode) of
                DocEnd \<Rightarrow> m
              | RightPos r \<Rightarrow>
                  if eq r (logoot_start (nodes m node))
                  then fixConflicts backwards node rm_nodes
                         (upd node (reduceLeft (logoot_end (nodes m snode))) m)
                  else m))"

text \<open>
  The \<^verbatim>\<open>forEach\<close> of \<^verbatim>\<open>patchNewRemovalAnchors\<close> with its two variables
  \<^verbatim>\<open>scan_nodes\<close> and \<^verbatim>\<open>rm_nodes\<close>.
\<close>

fun new_removal_loop :: "bool \<Rightarrow> ref list \<Rightarrow> ref list \<Rightarrow> ref list \<Rightarrow> ListDocumentModel \<Rightarrow> ListDocumentModel" where
  "new_removal_loop backwards [] scan_nodes rm_nodes m = m"
| "new_removal_loop backwards (node # rest) scan_nodes rm_nodes m =
     (if type (nodes m node) = DATA
      then new_removal_loop backwards rest (createScanset m node) [] m
      else
        (let m1 = new_removal_scan backwards node rm_nodes scan_nodes m
         in new_removal_loop backwards rest (createScanset m1 node)
              (if backwards then rm_nodes @ [node] else node # rm_nodes) m1))"

definition patchNewRemovalAnchors :: "ref list \<Rightarrow> bool \<Rightarrow> ListDocumentModel \<Rightarrow> ListDocumentModel" where
  "patchNewRemovalAnchors rng backwards m =
     new_removal_loop backwards (if backwards then rev rng else rng) [] [] m"

definition removeLogoot :: "env \<Rightarrow> ListDocumentModel \<Rightarrow> LogootPosition \<Rightarrow> int \<Rightarrow> LogootInt
    \<Rightarrow> error + (Operation list \<times> ListDocumentModel)" where
  "removeLogoot E m start len c =
     (let buckets = prefSearch E m (Some start) (Some (offsetLowest start len)) LCGO;
          opbuf = new_OperationBuffer (ldm_opts m) 0;
          blob = fst buckets @ fst (snd buckets) @ snd (snd buckets)
      in case sliceNodesIntoRanges E [start, offsetLowest start len] blob (bstadd E) m of
           Inl e \<Rightarrow> Inl e
         | Inr (ranges, m1) \<Rightarrow>
             (case ranges of
                [lesser0, rm_range, greater0] \<Rightarrow>
                  (case rm_loop E start c rm_range (opbuf, m1) of
                     Inl e \<Rightarrow> Inl e
                   | Inr (opbuf1, m2) \<Rightarrow>
                       (let lesser = (case lesser0 of
                                        [] \<Rightarrow> []
                                      | x # _ \<Rightarrow> grow_lesser m2 (tl (pred_chain m2 x)) lesser0);
                            greater_r = (case greater0 of
                                        [] \<Rightarrow> []
                                      | _ # _ \<Rightarrow> grow_greater m2 (tl (succ_chain m2 (last greater0))) greater0);
                            full_range = lesser @ rm_range @ greater_r;
                            m3 = patchNewRemovalAnchors full_range False m2;
                            m4 = patchNewRemovalAnchors full_range True m3
                        in case patchRemovalAnchors full_range False m4 of
                             Inl e \<Rightarrow> Inl e
                           | Inr m5 \<Rightarrow>
                               (case patchRemovalAnchors full_range True m5 of
                                  Inl e \<Rightarrow> Inl e
                                | Inr m6 \<Rightarrow> Inr (operations opbuf1, m6))))
              | _ \<Rightarrow> Inl (TypeError ''sliceNodesIntoRanges did not return three ranges'')))"

section \<open>selfTest\<close>

text \<open>
  The inner loop of \<^verbatim>\<open>ListDocumentModel.selfTest\<close>: for every other node \<open>cfl\<close> of the
  tree, \<open>node\<close> has \<open>cfl\<close> in its \<^verbatim>\<open>conflict_with\<close> exactly when it is expected to:
  for a \<open>cfl\<close> that starts before \<open>node\<close>, when the right anchor of \<open>cfl\<close> is the
  sentinel or lies after the start of \<open>node\<close>; for another \<open>cfl\<close>, when its left anchor
  is the sentinel or lies before the end of \<open>node\<close>.
\<close>

definition expected_conflict :: "AnchorLogootNode \<Rightarrow> AnchorLogootNode \<Rightarrow> bool" where
  "expected_conflict node cfl =
     (if lt (logoot_start cfl) (logoot_start node)
      then (case true_right cfl of
              DocEnd \<Rightarrow> True
            | RightPos p \<Rightarrow> gt p (logoot_start node))
      else (case true_left cfl of
              DocStart \<Rightarrow> True
            | LeftPos p \<Rightarrow> lt p (logoot_end node)))"

fun conflict_test :: "ListDocumentModel \<Rightarrow> ref \<Rightarrow> ref list \<Rightarrow> error option" where
  "conflict_test m node [] = None"
| "conflict_test m node (cfl # rest) =
     (if cfl = node then conflict_test m node rest
      else if (cfl \<in> set (conflict_with (nodes m node)))
                \<noteq> expected_conflict (nodes m node) (nodes m cfl)
      then Some (FatalError (if expected_conflict (nodes m node) (nodes m cfl)
                             then ''Expected node to have conflict''
                             else ''Expected node to not have conflict''))
      else conflict_test m node rest)"

text \<open>
  The outer loop with its variables \<^verbatim>\<open>last_ldoc\<close> and \<^verbatim>\<open>last_logoot\<close>. The messages
  of the first three errors are shortened to their constant part.
\<close>

fun selfTest_loop :: "ListDocumentModel \<Rightarrow> int \<Rightarrow> LogootPosition option \<Rightarrow> ref list \<Rightarrow> error option" where
  "selfTest_loop m last_ldoc last_logoot [] = None"
| "selfTest_loop m last_ldoc last_logoot (node # rest) =
     (if ldoc_start (nodes m node) \<noteq> last_ldoc
      then Some (FatalError ''Position found after'')
      else if (case last_logoot of
                 Some l \<Rightarrow> cmp l (logoot_start (nodes m node)) > 0
               | None \<Rightarrow> False)
      then Some (FatalError ''Logoot position found after'')
      else if node_length (nodes m node) < 1
      then Some (FatalError ''Node has true length of'')
      else (case conflict_test m node (bst m) of
              Some e \<Rightarrow> Some e
            | None \<Rightarrow>
                selfTest_loop m (ldoc_end (nodes m node))
                  (Some (logoot_start (nodes m node))) rest))"

text \<open>
  \<^verbatim>\<open>selfTest()\<close>: the tree's own test, then the loop over \<^verbatim>\<open>all_nodes\<close>. The result
  is the error thrown, if any.
\<close>

definition selfTest :: "env \<Rightarrow> ListDocumentModel \<Rightarrow> error option" where
  "selfTest E m =
     (case bst_selfTest E m of
        Some e \<Rightarrow> Some e
      | None \<Rightarrow> selfTest_loop m 0 None (bst m))"

section \<open>Sequences of remote operations\<close>

text \<open>
  A remote operation as it is delivered to a replica: the arguments of a call of
  \<^verbatim>\<open>insertLogoot\<close> or of \<^verbatim>\<open>removeLogoot\<close>.
\<close>

datatype LogootOp =
    InsertOp BranchKey "LogootPosition option" "LogootPosition option" int LogootInt
  | RemoveOp LogootPosition int LogootInt

definition apply_op :: "env \<Rightarrow> ListDocumentModel \<Rightarrow> LogootOp \<Rightarrow> error + ListDocumentModel" where
  "apply_op E m ope =
     (case ope of
        InsertOp br left_p right_p len c \<Rightarrow>
          (case insertLogoot E m br left_p right_p len c of
             Inl e \<Rightarrow> Inl e
           | Inr r \<Rightarrow> Inr (snd r))
      | RemoveOp start len c \<Rightarrow>
          (case removeLogoot E m start len c of
             Inl e \<Rightarrow> Inl e
           | Inr r \<Rightarrow> Inr (snd r)))"

fun apply_ops :: "env \<Rightarrow> ListDocumentModel \<Rightarrow> LogootOp list \<Rightarrow> error + ListDocumentModel" where
  "apply_ops E m [] = Inr m"
| "apply_ops E m (ope # rest) =
     (case apply_op E m ope of
        Inl e \<Rightarrow> Inl e
      | Inr m' \<Rightarrow> apply_ops E m' rest)"

text \<open>The nodes of the tree in order, as \<^verbatim>\<open>all_nodes\<close> returns them.\<close>

definition all_nodes :: "ListDocumentModel \<Rightarrow> AnchorLogootNode list" where
  "all_nodes m = map (nodes m) (bst m)"

section \<open>An instance of the parameters and example documents\<close>

text \<open>
  To run the model on small documents the parameters are instantiated as follows. The
  instance stands for the classes that are not in the file on documents where no node has
  to be split and where a new position fits at the top level.
  \<^item> The point search follows the comment in \<^verbatim>\<open>insertLocal\<close> ("n < start -> _lesser,
    start <= n -> _greater"): each bucket holds the nodes nearest to \<open>start\<close> on its side.
  \<^item> The range search puts the nodes below the range, inside it and above it in the three
    buckets, by the start position of the node.
  \<^item> Slicing puts each node in the range its start position falls in.
  \<^item> Nodes are compared and added to the tree by their start positions.
  \<^item> Two neighbours conflict as the specification says: the left one's right anchor is the
    sentinel or lies after the right one's start, and symmetrically.
  \<^item> The tree's self test passes.
\<close>

definition closest_search :: "ListDocumentModel \<Rightarrow> int \<Rightarrow> ref list \<times> ref list" where
  "closest_search m start =
     (let ls = filter (\<lambda>r. value (nodes m r) < start) (bst m);
          gs = filter (\<lambda>r. start \<le> value (nodes m r)) (bst m)
      in (filter (\<lambda>r. list_all (\<lambda>r'. value (nodes m r') \<le> value (nodes m r)) ls) ls,
          filter (\<lambda>r. list_all (\<lambda>r'. value (nodes m r) \<le> value (nodes m r')) gs) gs))"

definition range_search :: "ListDocumentModel \<Rightarrow> LogootPosition option \<Rightarrow> LogootPosition option
    \<Rightarrow> RangeBounds \<Rightarrow> ref list \<times> ref list \<times> ref list" where
  "range_search m lo hi bounds =
     (let below = (\<lambda>r. case lo of
                          None \<Rightarrow> False
                        | Some l \<Rightarrow> if bounds = LCGC \<or> bounds = LCGO
                                    then lt (logoot_start (nodes m r)) l
                                    else lteq (logoot_start (nodes m r)) l);
          above = (\<lambda>r. case hi of
                          None \<Rightarrow> False
                        | Some h \<Rightarrow> if bounds = LCGC \<or> bounds = LOGC
                                    then gt (logoot_start (nodes m r)) h
                                    else gteq (logoot_start (nodes m r)) h)
      in (filter below (bst m),
          filter (\<lambda>r. \<not> below r \<and> \<not> above r) (bst m),
          filter (\<lambda>r. \<not> below r \<and> above r) (bst m)))"

fun partition_at :: "ListDocumentModel \<Rightarrow> LogootPosition list \<Rightarrow> ref list \<Rightarrow> ref list list" where
  "partition_at m [] blob = [blob]"
| "partition_at m (b # bs) blob =
     filter (\<lambda>r. lt (logoot_start (nodes m r)) b) blob
       # partition_at m bs (filter (\<lambda>r. \<not> lt (logoot_start (nodes m r)) b) blob)"

definition top_level_position :: "BranchKey \<Rightarrow> int \<Rightarrow> LogootPosition option \<Rightarrow> LogootPosition option
    \<Rightarrow> error + LogootPosition" where
  "top_level_position br len left_p right_p =
     Inr [(case left_p of
             Some l \<Rightarrow> l_atom l 0
           | None \<Rightarrow> (case right_p of Some r \<Rightarrow> l_atom r 0 - len | None \<Rightarrow> 0),
           br)]"

definition neighbour_conflict :: "ref \<Rightarrow> ref
    \<Rightarrow> (ref \<Rightarrow> ListDocumentModel \<Rightarrow> error + ListDocumentModel)
    \<Rightarrow> ListDocumentModel \<Rightarrow> error + (bool \<times> ListDocumentModel)" where
  "neighbour_conflict node lst add m =
     (let conflict =
            (if lt (logoot_start (nodes m lst)) (logoot_start (nodes m node))
             then (case true_right (nodes m lst) of
                     DocEnd \<Rightarrow> True
                   | RightPos p \<Rightarrow> gt p (logoot_start (nodes m node)))
             else (case true_left (nodes m lst) of
                     DocStart \<Rightarrow> True
                   | LeftPos p \<Rightarrow> lt p (logoot_end (nodes m node))))
      in Inr (conflict,
              if conflict
              then upd node (\<lambda>n. n\<lparr>conflict_with := set_add (conflict_with n) lst\<rparr>) m
              else m))"

definition env_ex :: env where
  "env_ex =
     \<lparr>bst_selfTest = (\<lambda>m. None),
      bst_search = closest_search,
      prefSearch = range_search,
      bst_add = (\<lambda>r m. m\<lparr>bst :=
         insort_cmp (\<lambda>a b. cmp (logoot_start (nodes m a)) (logoot_start (nodes m b))) r (bst m)\<rparr>),
      preferential_cmp = (\<lambda>a b. cmp (logoot_start a) (logoot_start b)),
      sliceNodesIntoRanges = (\<lambda>boundaries blob onSplit m. Inr (partition_at m boundaries blob, m)),
      new_LogootPosition = top_level_position,
      updateNeighborConflicts = neighbour_conflict\<rparr>"

text \<open>The state of \<^verbatim>\<open>new ListDocumentModel()\<close>: an empty tree.\<close>

definition new_ListDocumentModel :: ListDocumentModel where
  "new_ListDocumentModel =
     \<lparr>nodes = (\<lambda>r. new_AnchorLogootNode [] 0 DUMMY 0), bst = [], fresh = 0,
      ldm_opts = \<lparr>agressively_test_bst = False\<rparr>\<rparr>"

text \<open>
  A document of three nodes on branch 0: a \<open>DATA\<close> node at atom 0 anchored on the right
  to atom 10, a tombstone of clock \<open>c\<close> at atom 2, and a \<open>DATA\<close> node at atom 10.
\<close>

definition doc3 :: "LogootInt \<Rightarrow> ListDocumentModel" where
  "doc3 c =
     \<lparr>nodes = (\<lambda>r.
         if r = 0 then
           \<lparr>logoot_start = [(0, 0)], node_length = 1, type = DATA, clk = 0, value = 0,
            left_anchor = DocStart, right_anchor = RightPos [(10, 0)], conflict_with = [2]\<rparr>
         else if r = 1 then
           \<lparr>logoot_start = [(2, 0)], node_length = 1, type = REMOVAL, clk = c, value = 1,
            left_anchor = DocStart, right_anchor = DocEnd, conflict_with = []\<rparr>
         else if r = 2 then
           \<lparr>logoot_start = [(10, 0)], node_length = 1, type = DATA, clk = 0, value = 1,
            left_anchor = LeftPos [(1, 0)], right_anchor = DocEnd, conflict_with = [0]\<rparr>
         else new_AnchorLogootNode [] 0 DUMMY 0),
      bst = [0, 1, 2], fresh = 3,
      ldm_opts = \<lparr>agressively_test_bst = False\<rparr>\<rparr>"

text \<open>
  A document of one \<open>DATA\<close> node of ten elements at the atoms 1 to 10 of branch 0.
\<close>

definition doc10 :: ListDocumentModel where
  "doc10 =
     \<lparr>nodes = (\<lambda>r.
         if r = 0 then
           \<lparr>logoot_start = [(1, 0)], node_length = 10, type = DATA, clk = 0, value = 0,
            left_anchor = DocStart, right_anchor = DocEnd, conflict_with = []\<rparr>
         else new_AnchorLogootNode [] 0 DUMMY 0),
      bst = [0], fresh = 1,
      ldm_opts = \<lparr>agressively_test_bst = False\<rparr>\<rparr>"

text \<open>
  The document an insertion of \<open>len\<close> elements at position \<open>p\<close> with clock \<open>c\<close> leaves
  when it is applied to the empty document, with the type of its node as a parameter:
  the dummy node of the merge at address 0 (it is not in the tree) and the node of the
  run at address 1.
\<close>

definition inserted_doc :: "LogootPosition \<Rightarrow> int \<Rightarrow> NodeType \<Rightarrow> LogootInt \<Rightarrow> ListDocumentModel" where
  "inserted_doc p len ty c =
     \<lparr>nodes = (nodes new_ListDocumentModel)
         (0 := (new_AnchorLogootNode (offsetLowest p len) 0 DUMMY 0)\<lparr>value := len\<rparr>,
          1 := new_AnchorLogootNode p len ty c),
      bst = [1], fresh = 2, ldm_opts = \<lparr>agressively_test_bst = False\<rparr>\<rparr>"

text \<open>
  The document that holds the run of \<open>inserted_doc p n DATA c\<close> and, after it, a second
  run of \<open>k\<close> elements at position \<open>s\<close> with clock \<open>c'\<close> that was inserted with
  the left neighbour \<open>left_p\<close>: the dummy node of the second merge at address 2 and
  the node of the second run at address 3. The first run is as it was, its right anchor
  still the end of the document, and neither node has the other in its
  \<^verbatim>\<open>conflict_with\<close>.
\<close>

definition gap_doc :: "LogootPosition \<Rightarrow> int \<Rightarrow> LogootInt \<Rightarrow> LogootPosition \<Rightarrow> LogootPosition \<Rightarrow> int
    \<Rightarrow> LogootInt \<Rightarrow> ListDocumentModel" where
  "gap_doc p n c left_p s k c' =
     \<lparr>nodes = (nodes new_ListDocumentModel)
         (0 := (new_AnchorLogootNode (offsetLowest p n) 0 DUMMY 0)\<lparr>value := n\<rparr>,
          1 := new_AnchorLogootNode p n DATA c,
          2 := (new_AnchorLogootNode (offsetLowest s k) 0 DUMMY 0)\<lparr>value := n + k\<rparr>,
          3 := (new_AnchorLogootNode s k DATA c')
                 \<lparr>value := n,
                   left_anchor := (if levels s = levels left_p then LeftPos left_p else DocStart)\<rparr>),
      bst = [1, 3], fresh = 4, ldm_opts = \<lparr>agressively_test_bst = False\<rparr>\<rparr>"

text \<open>
  The documents of a replica that receives, in this order, an insertion of \<open>w\<close>
  elements in front of position \<open>p\<close>, an insertion of \<open>k\<close> elements behind position
  \<open>p + j\<close> and the removal of these \<open>k\<close> elements, before the run of \<open>j + k\<close>
  elements at \<open>p\<close> itself arrives. \<open>front_doc\<close> holds the first run, at address 1,
  anchored on the right to \<open>p\<close>. \<open>tomb_doc\<close> holds in addition the second run at
  address 3, of type \<open>ty\<close> and clock \<open>c'\<close>, anchored on the left to its own start.
\<close>

definition front_doc :: "LogootPosition \<Rightarrow> int \<Rightarrow> LogootInt \<Rightarrow> ListDocumentModel" where
  "front_doc p w c =
     \<lparr>nodes = (nodes new_ListDocumentModel)
         (0 := (new_AnchorLogootNode p 0 DUMMY 0)\<lparr>value := w\<rparr>,
          1 := (new_AnchorLogootNode (offsetLowest p (- w)) w DATA c)\<lparr>right_anchor := RightPos p\<rparr>),
      bst = [1], fresh = 2, ldm_opts = \<lparr>agressively_test_bst = False\<rparr>\<rparr>"

definition tomb_doc :: "LogootPosition \<Rightarrow> int \<Rightarrow> LogootInt \<Rightarrow> int \<Rightarrow> int \<Rightarrow> NodeType \<Rightarrow> LogootInt
    \<Rightarrow> ListDocumentModel" where
  "tomb_doc p w c j k ty c' =
     \<lparr>nodes = (nodes new_ListDocumentModel)
         (0 := (new_AnchorLogootNode p 0 DUMMY 0)\<lparr>value := w\<rparr>,
          1 := (new_AnchorLogootNode (offsetLowest p (- w)) w DATA c)\<lparr>right_anchor := RightPos p\<rparr>,
          2 := (new_AnchorLogootNode (offsetLowest p (j + k)) 0 DUMMY 0)\<lparr>value := w + k\<rparr>,
          3 := (new_AnchorLogootNode (offsetLowest p j) k ty c')
                 \<lparr>value := w, left_anchor := LeftPos (offsetLowest p j)\<rparr>),
      bst = [1, 3], fresh = 4, ldm_opts = \<lparr>agressively_test_bst = False\<rparr>\<rparr>"

text \<open>
  \<open>refilled_doc\<close> is \<open>tomb_doc\<close> once the run at \<open>p\<close> has arrived: its first
  \<open>j\<close> elements are a new node at address 4, with right anchor \<open>ra\<close>, its last
  \<open>k\<close> elements are the tombstone, and the first run has the tombstone in its
  \<^verbatim>\<open>conflict_with\<close>.
\<close>

definition refilled_doc :: "LogootPosition \<Rightarrow> int \<Rightarrow> LogootInt \<Rightarrow> int \<Rightarrow> int \<Rightarrow> LogootInt \<Rightarrow> LogootInt
    \<Rightarrow> right_anchor_t \<Rightarrow> ListDocumentModel" where
  "refilled_doc p w c j k cr cx ra =
     \<lparr>nodes = (nodes new_ListDocumentModel)
         (0 := (new_AnchorLogootNode p 0 DUMMY 0)\<lparr>value := w\<rparr>,
          1 := (new_AnchorLogootNode (offsetLowest p (- w)) w DATA c)
                 \<lparr>right_anchor := RightPos p, conflict_with := [3]\<rparr>,
          2 := (new_AnchorLogootNode (offsetLowest p (j + k)) 0 DUMMY 0)\<lparr>value := w + k\<rparr>,
          3 := (new_AnchorLogootNode (offsetLowest p j) k REMOVAL cr)
                 \<lparr>value := w + j, left_anchor := LeftPos (offsetLowest p j)\<rparr>,
          4 := (new_AnchorLogootNode p j DATA cx)\<lparr>value := w, right_anchor := ra\<rparr>),
      bst = [1, 4, 3], fresh = 5, ldm_opts = \<lparr>agressively_test_bst = False\<rparr>\<rparr>"

text \<open>
  The document two insertions in order leave: one element with clock 5 at atom 0 and one
  element with clock 0 at atom 1, anchored to each other, with the dummy nodes of the two
  merges at addresses 0 and 2.
\<close>

definition doc2 :: ListDocumentModel where
  "doc2 =
     \<lparr>nodes = (nodes new_ListDocumentModel)
         (0 := (new_AnchorLogootNode [(1, 0)] 0 DUMMY 0)\<lparr>value := 1\<rparr>,
          1 := (new_AnchorLogootNode [(0, 0)] 1 DATA 5)\<lparr>right_anchor := RightPos [(1, 0)]\<rparr>,
          2 := (new_AnchorLogootNode [(2, 0)] 0 DUMMY 0)\<lparr>value := 2\<rparr>,
          3 := (new_AnchorLogootNode [(1, 0)] 1 DATA 0)\<lparr>value := 1, left_anchor := LeftPos [(1, 0)]\<rparr>),
      bst = [1, 3], fresh = 4, ldm_opts = \<lparr>agressively_test_bst = False\<rparr>\<rparr>"

text \<open>The type and the clock of every node of a document.\<close>

definition kinds :: "ListDocumentModel \<Rightarrow> ref \<Rightarrow> NodeType \<times> LogootInt" where
  "kinds m r = (type (nodes m r), clk (nodes m r))"

text \<open>
  The lengths of the removals the re-typing loop emits: those of the nodes that pass the
  gate and have a local length other than 0.
\<close>

definition removed_lengths :: "LogootPosition \<Rightarrow> LogootInt \<Rightarrow> ListDocumentModel \<Rightarrow> ref list \<Rightarrow> int list" where
  "removed_lengths start c m rm_range =
     map (\<lambda>r. ldoc_length (nodes m r))
       (filter (\<lambda>r. rm_gate start c (nodes m r) \<and> ldoc_length (nodes m r) \<noteq> 0) rm_range)"

text \<open>A node without its local offset, the one field a shift of the tree changes.\<close>

definition unplaced :: "AnchorLogootNode \<Rightarrow> AnchorLogootNode" where
  "unplaced n = n\<lparr>value := 0\<rparr>"

section \<open>Properties of the operation buffer\<close>

text \<open>
  C10. A call of \<^verbatim>\<open>OperationBuffer.insert\<close> or \<^verbatim>\<open>OperationBuffer.remove\<close> with
  length 0 changes nothing, whatever the node, the start and the offset are: the buffer
  (its operation list included) and the whole model state (the dummy node's value and every
  node's local offset included) are returned as they were.
\<close>

theorem zero_length_noop:
  "remove E node start 0 b m = Inr (b, m) \<and> insert E node start offset 0 b m = Inr (b, m)"
  by (simp add: remove_def insert_def)





lemma js_add_zero [simp]: "js_add 0 b = b" "js_add a 0 = a"
  by (simp_all add: js_add_def)





section \<open>Properties of insertLocal\<close>

text \<open>
  The local function \<^verbatim>\<open>search\<close> never throws a \<^verbatim>\<open>TypeError\<close>, and its result is
  determined by the \<open>DATA\<close> nodes of the bucket.
\<close>

lemma search_not_TypeError: "search d ns \<noteq> Inl (TypeError msg)"
  by (induction d ns rule: search.induct) (auto split: option.splits)


text \<open>
  C9. \<^verbatim>\<open>insertLocal(start, length)\<close> throws a \<^verbatim>\<open>TypeError\<close> (the invalid-argument
  kind) if and only if start < 0 or length <= 0; and for such arguments the result depends
  neither on the document nor on the search: the error is raised before the tree is
  looked at. (\<^verbatim>\<open>insertLocal\<close> never changes the document: it returns a value only.)
\<close>

theorem insertLocal_argument_check:
  "((\<exists>msg. insertLocal E m start len = Inl (TypeError msg)) = (start < 0 \<or> len \<le> 0))
   \<and> (start < 0 \<or> len \<le> 0 \<longrightarrow> insertLocal E m start len = insertLocal E' m' start len)"
  by (auto simp: insertLocal_def Let_def search_not_TypeError split: sum.splits option.splits)

text \<open>
  The theorem at work on the ten-element document: start -1 and length 0 are refused,
  start 3 with length 4 is not.
\<close>

theorem insertLocal_argument_check_witness:
  "(\<exists>msg. insertLocal env_ex doc10 (- 1) 4 = Inl (TypeError msg))
   \<and> (\<exists>msg. insertLocal env_ex doc10 3 0 = Inl (TypeError msg))
   \<and> \<not> (\<exists>msg. insertLocal env_ex doc10 3 4 = Inl (TypeError msg))
   \<and> insertLocal env_ex doc10 (- 1) 4 = insertLocal env_ex new_ListDocumentModel (- 1) 4"
proof -
  have h1: "(- 1 :: int) < 0 \<or> (4 :: int) \<le> 0" by simp
  have h2: "(3 :: int) < 0 \<or> (0 :: int) \<le> 0" by simp
  have h3: "\<not> ((3 :: int) < 0 \<or> (4 :: int) \<le> 0)" by simp
  from insertLocal_argument_check[of env_ex doc10 "- 1" 4 env_ex new_ListDocumentModel] h1
  have r1: "(\<exists>msg. insertLocal env_ex doc10 (- 1) 4 = Inl (TypeError msg))
      \<and> insertLocal env_ex doc10 (- 1) 4 = insertLocal env_ex new_ListDocumentModel (- 1) 4"
    by blast
  from insertLocal_argument_check[of env_ex doc10 3 0 env_ex new_ListDocumentModel] h2
  have r2: "\<exists>msg. insertLocal env_ex doc10 3 0 = Inl (TypeError msg)"
    by blast
  from insertLocal_argument_check[of env_ex doc10 3 4 env_ex new_ListDocumentModel] h3
  have r3: "\<not> (\<exists>msg. insertLocal env_ex doc10 3 4 = Inl (TypeError msg))"
    by blast
  from r1 r2 r3 show ?thesis by blast
qed



text \<open>
  The loop that derives the clock only looks at the nodes that are not \<open>DATA\<close>, and
  over those it computes the greater of its start value and one plus their greatest clock.
\<close>

lemma foldl_max_clock_filter:
  "foldl max_clock_step c ns = foldl max_clock_step c (filter (\<lambda>n. type n \<noteq> DATA) ns)"
  by (induction ns arbitrary: c) (auto simp: max_clock_step_def)

lemma foldl_max_clock_val:
  "\<forall>n \<in> set ns. type n \<noteq> DATA \<Longrightarrow>
   foldl max_clock_step c ns = (if ns = [] then c else max c (1 + Max (clk ` set ns)))"
proof (induction ns arbitrary: c)
  case Nil then show ?case by simp
next
  case (Cons n ns)
  then have ih: "foldl max_clock_step (max_clock_step c n) ns =
     (if ns = [] then max_clock_step c n else max (max_clock_step c n) (1 + Max (clk ` set ns)))"
    by simp
  from Cons.prems have nd: "type n \<noteq> DATA" by simp
  then have step: "max_clock_step c n = max c (clk n + 1)"
    by (simp add: max_clock_step_def)
  show ?case
  proof (cases "ns = []")
    case True
    with step show ?thesis by simp
  next
    case False
    then have "Max (Set.insert (clk n) (clk ` set ns)) = max (clk n) (Max (clk ` set ns))"
      by (simp add: Max_insert)
    with False ih step show ?thesis by simp
  qed
qed

text \<open>
  C6 (as amended). When \<^verbatim>\<open>insertLocal\<close> returns, its \<open>clk\<close> is 0 if no node of
  the buckets is a tombstone, and otherwise the greater of 0 and one plus the greatest
  clock among those nodes (so one plus that clock whenever it is at least -1). In every
  case it is strictly greater than the clock of each of those nodes.
\<close>

theorem insertLocal_clock:
  assumes "insertLocal E m start len = Inr r"
  shows "ret_clk r = (if non_data_touching E m start = [] then 0
                      else max 0 (1 + Max (clk ` set (non_data_touching E m start))))
       \<and> (\<forall>n \<in> set (non_data_touching E m start). clk n < ret_clk r)"
proof -
  let ?ns = "map (nodes m) (fst (bst_search E m start)) @ map (nodes m) (snd (bst_search E m start))"
  from assms have r: "ret_clk r = foldl max_clock_step 0 ?ns"
    by (auto simp: insertLocal_def Let_def split: if_splits sum.splits option.splits)
  have f: "foldl max_clock_step 0 ?ns = foldl max_clock_step 0 (non_data_touching E m start)"
    unfolding non_data_touching_def by (subst foldl_max_clock_filter) simp
  have v: "foldl max_clock_step 0 (non_data_touching E m start) =
     (if non_data_touching E m start = [] then 0
      else max 0 (1 + Max (clk ` set (non_data_touching E m start))))"
    by (rule foldl_max_clock_val) (auto simp: non_data_touching_def)
  have "\<forall>n \<in> set (non_data_touching E m start). clk n < ret_clk r"
  proof
    fix n assume n: "n \<in> set (non_data_touching E m start)"
    then have ne: "non_data_touching E m start \<noteq> []" by auto
    have "clk n \<le> Max (clk ` set (non_data_touching E m start))"
      using n by (simp add: Max_ge)
    with r f v ne show "clk n < ret_clk r" by simp
  qed
  with r f v show ?thesis by simp
qed

text \<open>
  The theorem at work: next to a tombstone of clock 3 the returned clock is 4.
\<close>

theorem insertLocal_clock_witness:
  "\<exists>r. insertLocal env_ex (doc3 3) 1 1 = Inr r \<and> map clk (non_data_touching env_ex (doc3 3) 1) = [3]
      \<and> ret_clk r = 4"
proof -
  have s: "bst_search env_ex (doc3 3) 1 = ([0], [1, 2])"
    by (simp add: env_ex_def closest_search_def doc3_def)
  have n: "non_data_touching env_ex (doc3 3) 1 = [nodes (doc3 3) 1]"
    by (simp add: non_data_touching_def s) (simp add: doc3_def)
  have c: "clk (nodes (doc3 3) 1) = 3" by (simp add: doc3_def)
  have i: "insertLocal env_ex (doc3 3) 1 1 =
      Inr \<lparr>left = Some [(1, 0)], right = Some [(10, 0)], ret_clk = 4, ret_length = 1\<rparr>"
    by (simp add: insertLocal_def s Let_def)
       (simp add: doc3_def ldoc_end_def ldoc_start_def ldoc_length_def
        max_clock_step_def logoot_end_def offsetLowest_def)
  from insertLocal_clock[OF i] n c
  have "ret_clk \<lparr>left = Some [(1, 0)], right = Some [(10, 0)], ret_clk = 4, ret_length = 1\<rparr>
      = max 0 (1 + Max (clk ` set [nodes (doc3 3) 1]))"
    by simp
  with i n c show ?thesis by simp
qed

text \<open>
  C6 as stated fails for a tombstone of clock -2: one plus the greatest clock is -1, and
  the returned clock is 0.
\<close>

theorem insertLocal_clock_negative:
  "insertLocal env_ex (doc3 (- 2)) 1 1 =
      Inr \<lparr>left = Some [(1, 0)], right = Some [(10, 0)], ret_clk = 0, ret_length = 1\<rparr>
   \<and> map clk (non_data_touching env_ex (doc3 (- 2)) 1) = [- 2]
   \<and> 1 + Max (clk ` set (non_data_touching env_ex (doc3 (- 2)) 1)) = - 1"
proof -
  have s: "bst_search env_ex (doc3 (- 2)) 1 = ([0], [1, 2])"
    by (simp add: env_ex_def closest_search_def doc3_def)
  have n: "non_data_touching env_ex (doc3 (- 2)) 1 = [nodes (doc3 (- 2)) 1]"
    by (simp add: non_data_touching_def s) (simp add: doc3_def)
  have c: "clk (nodes (doc3 (- 2)) 1) = - 2" by (simp add: doc3_def)
  have i: "insertLocal env_ex (doc3 (- 2)) 1 1 =
      Inr \<lparr>left = Some [(1, 0)], right = Some [(10, 0)], ret_clk = 0, ret_length = 1\<rparr>"
    by (simp add: insertLocal_def s Let_def)
       (simp add: doc3_def ldoc_end_def ldoc_start_def ldoc_length_def
        max_clock_step_def logoot_end_def offsetLowest_def)
  from i n c show ?thesis by simp
qed

section \<open>Properties of patchRemovalAnchors\<close>

text \<open>
  C7 (as amended). In the forward pass, at a node that is not \<open>DATA\<close>, a member
  \<open>snode\<close> of the scan set with anchor position \<open>apos\<close>: if \<open>apos\<close> is less than the
  node's start, \<open>snode\<close> leaves the scan set and nothing else changes. Otherwise
  \<open>snode\<close> stays in the scan set and is added to the node's \<^verbatim>\<open>conflict_with\<close> in
  every case, also when \<open>apos\<close> is not less than the node's end; the right anchor of
  \<open>snode\<close> becomes the node's end exactly when \<open>apos\<close> is less than that end, and is
  left as it is otherwise. No other node changes.
\<close>

theorem patch_visit_forward:
  assumes "true_right (nodes m snode) = RightPos apos"
  shows "(lt apos (logoot_start (nodes m node)) \<longrightarrow>
            patch_visit False node snode (scan_nodes, m) = Inr (set_delete scan_nodes snode, m))
       \<and> (\<not> lt apos (logoot_start (nodes m node)) \<longrightarrow>
            (\<exists>m'. patch_visit False node snode (scan_nodes, m) = Inr (scan_nodes, m')
               \<and> conflict_with (nodes m' node) = set_add (conflict_with (nodes m node)) snode
               \<and> snode \<in> set (conflict_with (nodes m' node))
               \<and> right_anchor (nodes m' snode) =
                    (if lt apos (logoot_end (nodes m node))
                     then RightPos (logoot_end (nodes m node))
                     else right_anchor (nodes m snode))
               \<and> (\<forall>r. r \<noteq> node \<and> r \<noteq> snode \<longrightarrow> nodes m' r = nodes m r)
               \<and> bst m' = bst m))"
  using assms
  by (auto simp: patch_visit_def Let_def upd_def set_add_def true_right_def)

text \<open>
  The theorem at work at the tombstone of the three-node document (start atom 2, end atom
  3), for the first node as the member visited: with its anchor at atom 1 it leaves the scan
  set; with its anchor at atom 10 it is recorded as a conflict and keeps its anchor; with
  its anchor at atom 2 it is recorded and its anchor moves to atom 3.
\<close>

theorem patch_visit_forward_witness:
  "patch_visit False 1 0 ([0], doc3 0\<lparr>nodes := (nodes (doc3 0))
        (0 := (nodes (doc3 0) 0)\<lparr>right_anchor := RightPos [(1, 0)]\<rparr>)\<rparr>)
     = Inr ([], doc3 0\<lparr>nodes := (nodes (doc3 0))
        (0 := (nodes (doc3 0) 0)\<lparr>right_anchor := RightPos [(1, 0)]\<rparr>)\<rparr>)
   \<and> (\<exists>m'. patch_visit False 1 0 ([0], doc3 0) = Inr ([0], m')
          \<and> conflict_with (nodes m' 1) = [0]
          \<and> right_anchor (nodes m' 0) = RightPos [(10, 0)])
   \<and> (\<exists>m'. patch_visit False 1 0 ([0], doc3 0\<lparr>nodes := (nodes (doc3 0))
        (0 := (nodes (doc3 0) 0)\<lparr>right_anchor := RightPos [(2, 0)]\<rparr>)\<rparr>) = Inr ([0], m')
          \<and> conflict_with (nodes m' 1) = [0]
          \<and> right_anchor (nodes m' 0) = RightPos [(3, 0)])"
proof -
  let ?m1 = "doc3 0\<lparr>nodes := (nodes (doc3 0))
        (0 := (nodes (doc3 0) 0)\<lparr>right_anchor := RightPos [(1, 0)]\<rparr>)\<rparr>"
  let ?m2 = "doc3 0\<lparr>nodes := (nodes (doc3 0))
        (0 := (nodes (doc3 0) 0)\<lparr>right_anchor := RightPos [(2, 0)]\<rparr>)\<rparr>"
  have a1: "true_right (nodes ?m1 0) = RightPos [(1, 0)]" by (simp add: true_right_def)
  have a2: "true_right (nodes ?m2 0) = RightPos [(2, 0)]" by (simp add: true_right_def)
  have a3: "true_right (nodes (doc3 0) 0) = RightPos [(10, 0)]"
    by (simp add: true_right_def doc3_def)
  have c1: "lt [(1, 0)] (logoot_start (nodes ?m1 1))" by (simp add: doc3_def lt_def)
  have c2: "\<not> lt [(2, 0)] (logoot_start (nodes ?m2 1)) \<and> lt [(2, 0)] (logoot_end (nodes ?m2 1))
      \<and> logoot_end (nodes ?m2 1) = [(3, 0)] \<and> conflict_with (nodes ?m2 1) = []"
    by (simp add: doc3_def lt_def logoot_end_def offsetLowest_def)
  have c3: "\<not> lt [(10, 0)] (logoot_start (nodes (doc3 0) 1))
      \<and> \<not> lt [(10, 0)] (logoot_end (nodes (doc3 0) 1))
      \<and> right_anchor (nodes (doc3 0) 0) = RightPos [(10, 0)] \<and> conflict_with (nodes (doc3 0) 1) = []"
    by (simp add: doc3_def lt_def logoot_end_def offsetLowest_def)
  from patch_visit_forward[OF a1, of 1 "[0]"] c1
  have r1: "patch_visit False 1 0 ([0], ?m1) = Inr ([], ?m1)" by (simp add: set_delete_def)
  from patch_visit_forward[OF a3, of 1 "[0]"] c3
  have r3: "\<exists>m'. patch_visit False 1 0 ([0], doc3 0) = Inr ([0], m')
          \<and> conflict_with (nodes m' 1) = [0]
          \<and> right_anchor (nodes m' 0) = RightPos [(10, 0)]"
    by (auto simp: set_add_def)
  from patch_visit_forward[OF a2, of 1 "[0]"] c2
  have r2: "\<exists>m'. patch_visit False 1 0 ([0], ?m2) = Inr ([0], m')
          \<and> conflict_with (nodes m' 1) = [0]
          \<and> right_anchor (nodes m' 0) = RightPos [(3, 0)]"
    by (auto simp: set_add_def)
  from r1 r2 r3 show ?thesis by blast
qed

text \<open>
  C7 as stated fails: in the forward pass over the three-node document the first node,
  whose anchor (atom 10) is not less than the end of the tombstone (atom 3), is added to the
  \<^verbatim>\<open>conflict_with\<close> of the tombstone, which was empty.
\<close>

theorem patch_adds_conflict_beyond_end:
  "\<exists>m'. patchRemovalAnchors [0, 1, 2] False (doc3 0) = Inr m'
     \<and> type (nodes (doc3 0) 1) = REMOVAL
     \<and> true_right (nodes (doc3 0) 0) = RightPos [(10, 0)]
     \<and> logoot_end (nodes (doc3 0) 1) = [(3, 0)]
     \<and> \<not> lt [(10, 0)] [(3, 0)]
     \<and> conflict_with (nodes (doc3 0) 1) = []
     \<and> conflict_with (nodes m' 1) = [0]"
  by (simp add: patchRemovalAnchors_def doc3_def data_scan_set_def set_add_def true_right_def
      true_left_def patch_visit_def lt_def logoot_end_def offsetLowest_def upd_def)

section \<open>Delivery order of an insertion and its removal\<close>

text \<open>
  Positions: an offset keeps the number of levels, and moves the atom of the lowest
  level.
\<close>

lemma offsetLowest_length: "length (offsetLowest p k) = length p"
  by (cases p rule: rev_cases) (auto simp: offsetLowest_def)

lemma offsetLowest_levels: "levels (offsetLowest p k) = levels p"
  by (simp add: levels_def offsetLowest_length)

lemma l_atom_offsetLowest: "p \<noteq> [] \<Longrightarrow> l_atom (offsetLowest p k) (levels p) = l_atom p (levels p) + k"
  by (cases p rule: rev_cases) (auto simp: offsetLowest_def l_atom_def levels_def nth_append)

lemma set_atom_same: "set_atom p (levels p) (l_atom p (levels p)) = p"
  by (auto simp: set_atom_def l_atom_def levels_def)

text \<open>
  The three calls the two delivery orders are made of. They are evaluated for any
  implementation of the search, of the slicing and of the tree that finds nothing in an
  empty tree, slices no nodes into empty ranges, adds a node to an empty tree as its only
  node, and finds and slices the one node of a tree as the range it covers exactly.
\<close>

lemma insert_into_empty:
  assumes pos: "new_LogootPosition E br len None None = Inr p" and ne: "p \<noteq> []" and len: "0 < len"
    and search_empty: "\<And>m lo hi b. bst m = [] \<Longrightarrow> prefSearch E m lo hi b = ([], [], [])"
    and slice_empty: "\<And>bs add m. sliceNodesIntoRanges E bs [] add m = Inr (replicate (Suc (length bs)) [], m)"
    and add_empty: "\<And>r m. bst m = [] \<Longrightarrow> bst_add E r m = m\<lparr>bst := [r]\<rparr>"
  shows "insertLogoot E new_ListDocumentModel br None None len c =
           Inr ([InsertionOperation 0 0 len], inserted_doc p len DATA c)"
proof -
  let ?q = "offsetLowest p len"
  have csr: "constructSkipRanges E new_ListDocumentModel None p ?q None =
     Inr (\<lparr>anchor_left = None, nc_left = [], skip_ranges = [0], nc_right = [], anchor_right = None\<rparr>,
          new_ListDocumentModel\<lparr>nodes := (nodes new_ListDocumentModel)(0 := new_AnchorLogootNode ?q 0 DUMMY 0),
             fresh := 1\<rparr>)"
    by (simp add: constructSkipRanges_def search_empty slice_empty sort_cmp_def numeral_eq_Suc
        new_ListDocumentModel_def Let_def alloc_def dummy_value_def new_AnchorLogootNode_def)
  show ?thesis
    apply (insert len)
    apply (simp add: insertLogoot_def pos csr)
    apply (simp add: new_OperationBuffer_def new_ListDocumentModel_def new_AnchorLogootNode_def)
    apply (simp add: fillSkipRanges_def fill_node_def fill_space_def fill_existing_def Let_def
        l_atom_offsetLowest[OF ne] set_atom_same alloc_def new_AnchorLogootNode_def bstadd_def add_empty
        insert_def ldoc_start_def ldoc_length_def mirror_def inorder_successor_def logoot_end_def upd_def)
    apply (simp add: linkFilledSkipRanges_def fillRangeConflicts_def finish_insert_def opt_list_def
        patchRemovalAnchors_def data_scan_set_def set_add_def true_left_def true_right_def upd_def
        inserted_doc_def new_ListDocumentModel_def new_AnchorLogootNode_def fun_upd_twist)
    done
qed

lemma remove_from_empty:
  assumes search_empty: "\<And>m lo hi b. bst m = [] \<Longrightarrow> prefSearch E m lo hi b = ([], [], [])"
    and slice_empty: "\<And>bs add m. sliceNodesIntoRanges E bs [] add m = Inr (replicate (Suc (length bs)) [], m)"
    and "bst m = []"
  shows "removeLogoot E m start len c = Inr ([], m)"
  using assms
  by (simp add: removeLogoot_def numeral_eq_Suc new_OperationBuffer_def patchNewRemovalAnchors_def
      patchRemovalAnchors_def)

lemma remove_inserted:
  assumes ne: "p \<noteq> []" and len: "0 < len" and clk: "c1 \<le> c2"
    and search_one: "\<And>m r. bst m = [r] \<Longrightarrow> logoot_start (nodes m r) = p \<Longrightarrow> node_length (nodes m r) = len
          \<Longrightarrow> prefSearch E m (Some p) (Some (offsetLowest p len)) LCGO = ([], [r], [])"
    and slice_one: "\<And>m r add. bst m = [r] \<Longrightarrow> logoot_start (nodes m r) = p \<Longrightarrow> node_length (nodes m r) = len
          \<Longrightarrow> sliceNodesIntoRanges E [p, offsetLowest p len] [r] add m = Inr ([[], [r], []], m)"
  shows "removeLogoot E (inserted_doc p len DATA c1) p len c2 =
           Inr ([RemovalOperation 0 len], inserted_doc p len REMOVAL c2)"
proof -
  have s: "prefSearch E (inserted_doc p len DATA c1) (Some p) (Some (offsetLowest p len)) LCGO = ([], [Suc 0], [])"
    by (rule search_one) (simp_all add: inserted_doc_def new_AnchorLogootNode_def)
  have sl: "\<And>add. sliceNodesIntoRanges E [p, offsetLowest p len] [Suc 0] add (inserted_doc p len DATA c1)
        = Inr ([[], [Suc 0], []], inserted_doc p len DATA c1)"
    by (rule slice_one) (simp_all add: inserted_doc_def new_AnchorLogootNode_def)
  show ?thesis
    apply (insert len clk)
    apply (simp add: removeLogoot_def s sl new_OperationBuffer_def)
    apply (simp add: rm_node_def rm_gate_def inserted_doc_def new_AnchorLogootNode_def remove_def
        ldoc_start_def ldoc_length_def mirror_def inorder_successor_def upd_def)
    apply (simp add: patchNewRemovalAnchors_def patchRemovalAnchors_def createScanset_def set_add_def)
    done
qed

text \<open>
  C1 (the code does not do what the claim says). Take the insertion of \<open>len\<close> elements
  with clock \<open>c1\<close> into the empty document, at the position \<open>p\<close> the constructor
  generates, and the removal of these \<open>len\<close> elements with a clock \<open>c2\<close> that is not
  smaller. Delivered insertion first, they leave one \<open>REMOVAL\<close> node of clock \<open>c2\<close>;
  delivered removal first, they leave one \<open>DATA\<close> node of clock \<open>c1\<close>:
  \<^verbatim>\<open>removeLogoot\<close> re-types the nodes it finds and records nothing for a range that
  holds no node yet. The two replicas do not converge.
\<close>

theorem removal_before_insertion_is_lost:
  assumes pos: "new_LogootPosition E br len None None = Inr p" and ne: "p \<noteq> []"
    and len: "0 < len" and clk: "c1 \<le> c2"
    and search_empty: "\<And>m lo hi b. bst m = [] \<Longrightarrow> prefSearch E m lo hi b = ([], [], [])"
    and slice_empty: "\<And>bs add m. sliceNodesIntoRanges E bs [] add m = Inr (replicate (Suc (length bs)) [], m)"
    and add_empty: "\<And>r m. bst m = [] \<Longrightarrow> bst_add E r m = m\<lparr>bst := [r]\<rparr>"
    and search_one: "\<And>m r. bst m = [r] \<Longrightarrow> logoot_start (nodes m r) = p \<Longrightarrow> node_length (nodes m r) = len
          \<Longrightarrow> prefSearch E m (Some p) (Some (offsetLowest p len)) LCGO = ([], [r], [])"
    and slice_one: "\<And>m r add. bst m = [r] \<Longrightarrow> logoot_start (nodes m r) = p \<Longrightarrow> node_length (nodes m r) = len
          \<Longrightarrow> sliceNodesIntoRanges E [p, offsetLowest p len] [r] add m = Inr ([[], [r], []], m)"
  shows "\<exists>mA mB.
           apply_ops E new_ListDocumentModel [InsertOp br None None len c1, RemoveOp p len c2] = Inr mA
         \<and> apply_ops E new_ListDocumentModel [RemoveOp p len c2, InsertOp br None None len c1] = Inr mB
         \<and> map type (all_nodes mA) = [REMOVAL] \<and> map type (all_nodes mB) = [DATA]
         \<and> map clk (all_nodes mA) = [c2] \<and> map clk (all_nodes mB) = [c1]"
proof -
  have i: "insertLogoot E new_ListDocumentModel br None None len c1 =
           Inr ([InsertionOperation 0 0 len], inserted_doc p len DATA c1)"
    by (rule insert_into_empty[OF pos ne len search_empty slice_empty add_empty])
  have r: "removeLogoot E (inserted_doc p len DATA c1) p len c2 =
           Inr ([RemovalOperation 0 len], inserted_doc p len REMOVAL c2)"
    by (rule remove_inserted[OF ne len clk search_one slice_one])
  have r0: "removeLogoot E new_ListDocumentModel p len c2 = Inr ([], new_ListDocumentModel)"
    by (rule remove_from_empty) (simp_all add: search_empty slice_empty new_ListDocumentModel_def)
  have a: "apply_ops E new_ListDocumentModel [InsertOp br None None len c1, RemoveOp p len c2]
            = Inr (inserted_doc p len REMOVAL c2)"
    by (simp add: apply_op_def i r)
  have b: "apply_ops E new_ListDocumentModel [RemoveOp p len c2, InsertOp br None None len c1]
            = Inr (inserted_doc p len DATA c1)"
    by (simp add: apply_op_def i r0)
  show ?thesis
    unfolding a b by (simp add: all_nodes_def inserted_doc_def new_AnchorLogootNode_def)
qed

text \<open>
  The theorem at work on the instance of the parameters: one element on branch 0 at atom
  0, inserted with clock 0 and removed with clock 1.
\<close>

theorem removal_before_insertion_is_lost_witness:
  "\<exists>mA mB.
           apply_ops env_ex new_ListDocumentModel [InsertOp 0 None None 1 0, RemoveOp [(0, 0)] 1 1] = Inr mA
         \<and> apply_ops env_ex new_ListDocumentModel [RemoveOp [(0, 0)] 1 1, InsertOp 0 None None 1 0] = Inr mB
         \<and> map type (all_nodes mA) = [REMOVAL] \<and> map type (all_nodes mB) = [DATA]
         \<and> map clk (all_nodes mA) = [1] \<and> map clk (all_nodes mB) = [0]"
proof (rule removal_before_insertion_is_lost)
  show "new_LogootPosition env_ex 0 1 None None = Inr [(0, 0)]"
    by (simp add: env_ex_def top_level_position_def)
  show "\<And>m lo hi b. bst m = [] \<Longrightarrow> prefSearch env_ex m lo hi b = ([], [], [])"
    by (simp add: env_ex_def range_search_def)
  show "\<And>bs add m. sliceNodesIntoRanges env_ex bs [] add m = Inr (replicate (Suc (length bs)) [], m)"
  proof -
    fix bs :: "LogootPosition list" and add :: "ref \<Rightarrow> ListDocumentModel \<Rightarrow> error + ListDocumentModel" and m
    have "partition_at m bs [] = replicate (Suc (length bs)) []"
      by (induction bs) simp_all
    then show "sliceNodesIntoRanges env_ex bs [] add m = Inr (replicate (Suc (length bs)) [], m)"
      by (simp add: env_ex_def)
  qed
  show "\<And>r m. bst m = [] \<Longrightarrow> bst_add env_ex r m = m\<lparr>bst := [r]\<rparr>"
    by (simp add: env_ex_def)
  show "\<And>m r. bst m = [r] \<Longrightarrow> logoot_start (nodes m r) = [(0, 0)] \<Longrightarrow> node_length (nodes m r) = 1
          \<Longrightarrow> prefSearch env_ex m (Some [(0, 0)]) (Some (offsetLowest [(0, 0)] 1)) LCGO = ([], [r], [])"
    by (simp add: env_ex_def range_search_def lt_def gteq_def offsetLowest_def)
  show "\<And>m r add. bst m = [r] \<Longrightarrow> logoot_start (nodes m r) = [(0, 0)] \<Longrightarrow> node_length (nodes m r) = 1
          \<Longrightarrow> sliceNodesIntoRanges env_ex [[(0, 0)], offsetLowest [(0, 0)] 1] [r] add m = Inr ([[], [r], []], m)"
    by (simp add: env_ex_def lt_def offsetLowest_def)
qed simp_all

section \<open>Properties of the re-typing of removeLogoot\<close>

text \<open>
  Pushing an operation shifts local offsets and nothing else: the tree and every field of
  every node other than \<open>value\<close> stay as they are.
\<close>

lemma fold_shift_unplaced:
  "unplaced (fold (\<lambda>y g. g(y := (g y)\<lparr>value := value (g y) + d\<rparr>)) ys h x) = unplaced (h x)"
  by (induction ys arbitrary: h) (auto simp: unplaced_def)

lemma unplaced_value: "unplaced (n\<lparr>value := v\<rparr>) = unplaced n"
  by (simp add: unplaced_def)

lemma shift_from_unplaced: "unplaced (shift_from xs r d h x) = unplaced (h x)"
proof (induction xs)
  case Nil
  show ?case by simp
next
  case (Cons a xs)
  show ?case
  proof (cases "a = r")
    case True
    then have "shift_from (a # xs) r d h
        = fold (\<lambda>y g. g(y := (g y)\<lparr>value := value (g y) + d\<rparr>)) (a # xs) h"
      by simp
    then show ?thesis by (simp only: fold_shift_unplaced)
  next
    case False
    with Cons show ?thesis by simp
  qed
qed

lemma mirror_frame:
  assumes "mirror E node start d b m = Inr (b', m')"
  shows "b' = b \<and> bst m' = bst m \<and> (\<forall>r. unplaced (nodes m' r) = unplaced (nodes m r))"
  using assms
  by (auto simp: mirror_def Let_def addSpaceBefore_def shift_from_unplaced unplaced_value
      split: option.splits if_splits)

lemma remove_frame:
  assumes "remove E node start len b m = Inr (b', m')"
  shows "bst m' = bst m \<and> (\<forall>r. unplaced (nodes m' r) = unplaced (nodes m r))
       \<and> operations b' = operations b @ (if len = 0 then [] else [RemovalOperation start len])"
proof (cases "len = 0")
  case True
  with assms show ?thesis by (simp add: remove_def)
next
  case False
  with assms have "mirror E node start (- len)
      (b\<lparr>operations := operations b @ [RemovalOperation start len]\<rparr>) m = Inr (b', m')"
    by (simp add: remove_def split: if_splits)
  from mirror_frame[OF this] False show ?thesis by simp
qed

lemma unplaced_fields:
  "unplaced n' = unplaced n \<Longrightarrow>
     type n' = type n \<and> clk n' = clk n \<and> left_anchor n' = left_anchor n
     \<and> right_anchor n' = right_anchor n \<and> conflict_with n' = conflict_with n
     \<and> logoot_start n' = logoot_start n \<and> node_length n' = node_length n"
  by (cases n, cases n') (simp add: unplaced_def)

lemma unplaced_gate: "unplaced n' = unplaced n \<Longrightarrow> rm_gate start c n' = rm_gate start c n"
  using unplaced_fields[of n' n] by (simp add: rm_gate_def)

lemma unplaced_ldoc_length: "unplaced n' = unplaced n \<Longrightarrow> ldoc_length n' = ldoc_length n"
  using unplaced_fields[of n' n] by (simp add: ldoc_length_def)

lemma removed_lengths_cong:
  "(\<And>r. r \<in> set rs \<Longrightarrow> unplaced (nodes m1 r) = unplaced (nodes m r)) \<Longrightarrow>
   removed_lengths start c m1 rs = removed_lengths start c m rs"
proof (induction rs)
  case Nil
  show ?case by (simp add: removed_lengths_def)
next
  case (Cons a rs)
  have h: "unplaced (nodes m1 a) = unplaced (nodes m a)" using Cons.prems by simp
  note g = unplaced_gate[OF h, of start c] and l = unplaced_ldoc_length[OF h]
  have ih: "removed_lengths start c m1 rs = removed_lengths start c m rs"
    using Cons by simp
  from g l ih show ?case by (simp add: removed_lengths_def)
qed

text \<open>
  One round of the loop, then the whole loop: the nodes outside the range keep their
  fields, a node of the range that passes the gate becomes a \<open>REMOVAL\<close> of the new
  clock, one that does not pass keeps its fields, and the operations pushed are removals
  of the local lengths of the gated nodes whose local length is not 0.
\<close>

lemma rm_node_frame:
  assumes "rm_node E start c node (b, m) = Inr (b', m')"
  shows "(\<forall>r. r \<noteq> node \<longrightarrow> unplaced (nodes m' r) = unplaced (nodes m r))
       \<and> (rm_gate start c (nodes m node) \<longrightarrow>
            unplaced (nodes m' node) = unplaced ((nodes m node)\<lparr>type := REMOVAL, clk := c\<rparr>))
       \<and> (\<not> rm_gate start c (nodes m node) \<longrightarrow> b' = b \<and> m' = m)
       \<and> (\<exists>s. operations b' = operations b @
              map (\<lambda>l. RemovalOperation s l) (removed_lengths start c m [node]))"
proof (cases "rm_gate start c (nodes m node)")
  case False
  with assms show ?thesis by (simp add: rm_node_def removed_lengths_def)
next
  case True
  with assms obtain b1 m1 where
    r: "remove E node (ldoc_start (nodes m node)) (ldoc_length (nodes m node)) b m = Inr (b1, m1)"
    and b: "b' = b1" and m: "m' = upd node (\<lambda>n. n\<lparr>type := REMOVAL, clk := c\<rparr>) m1"
    by (auto simp: rm_node_def split: sum.splits)
  from remove_frame[OF r] have
    f: "\<forall>r. unplaced (nodes m1 r) = unplaced (nodes m r)"
    and o: "operations b1 = operations b @
       (if ldoc_length (nodes m node) = 0 then []
        else [RemovalOperation (ldoc_start (nodes m node)) (ldoc_length (nodes m node))])"
    by simp_all
  from f have "unplaced (nodes m1 node) = unplaced (nodes m node)" by simp
  then have "unplaced ((nodes m1 node)\<lparr>type := REMOVAL, clk := c\<rparr>)
      = unplaced ((nodes m node)\<lparr>type := REMOVAL, clk := c\<rparr>)"
    by (cases "nodes m1 node", cases "nodes m node") (simp add: unplaced_def)
  with True f o b m show ?thesis
    by (auto simp: upd_def removed_lengths_def)
qed

lemma rm_loop_frame:
  assumes "distinct rm_range" and "rm_loop E start c rm_range (b, m) = Inr (b', m')"
  shows "(\<forall>r. r \<notin> set rm_range \<longrightarrow> unplaced (nodes m' r) = unplaced (nodes m r))
       \<and> (\<forall>node \<in> set rm_range.
            (rm_gate start c (nodes m node) \<longrightarrow>
               unplaced (nodes m' node) = unplaced ((nodes m node)\<lparr>type := REMOVAL, clk := c\<rparr>))
          \<and> (\<not> rm_gate start c (nodes m node) \<longrightarrow>
               unplaced (nodes m' node) = unplaced (nodes m node)))
       \<and> (\<exists>starts. length starts = length (removed_lengths start c m rm_range)
             \<and> operations b' = operations b @
                 map (\<lambda>(s, l). RemovalOperation s l) (zip starts (removed_lengths start c m rm_range)))"
  using assms
proof (induction rm_range arbitrary: b m)
  case Nil
  then show ?case by (simp add: removed_lengths_def)
next
  case (Cons node rest)
  from Cons.prems obtain b1 m1 where
    n: "rm_node E start c node (b, m) = Inr (b1, m1)"
    and l: "rm_loop E start c rest (b1, m1) = Inr (b', m')"
    by (auto split: sum.splits)
  from Cons.prems have d: "distinct rest" and nin: "node \<notin> set rest" by simp_all
  note N = rm_node_frame[OF n]
  note L = Cons.IH[OF d l]
  have same: "\<And>r. r \<noteq> node \<Longrightarrow> unplaced (nodes m1 r) = unplaced (nodes m r)"
    using N by blast
  have nodeN: "unplaced (nodes m1 node) =
      (if rm_gate start c (nodes m node)
       then unplaced ((nodes m node)\<lparr>type := REMOVAL, clk := c\<rparr>)
       else unplaced (nodes m node))"
    using N by auto
  have rl: "removed_lengths start c m1 rest = removed_lengths start c m rest"
    by (rule removed_lengths_cong, rule same) (use nin in auto)
  have c1: "\<forall>r. r \<notin> set (node # rest) \<longrightarrow> unplaced (nodes m' r) = unplaced (nodes m r)"
    using L same by auto
  have c2: "\<forall>x \<in> set (node # rest).
            (rm_gate start c (nodes m x) \<longrightarrow>
               unplaced (nodes m' x) = unplaced ((nodes m x)\<lparr>type := REMOVAL, clk := c\<rparr>))
          \<and> (\<not> rm_gate start c (nodes m x) \<longrightarrow>
               unplaced (nodes m' x) = unplaced (nodes m x))"
  proof
    fix x assume x: "x \<in> set (node # rest)"
    show "(rm_gate start c (nodes m x) \<longrightarrow>
               unplaced (nodes m' x) = unplaced ((nodes m x)\<lparr>type := REMOVAL, clk := c\<rparr>))
          \<and> (\<not> rm_gate start c (nodes m x) \<longrightarrow>
               unplaced (nodes m' x) = unplaced (nodes m x))"
    proof (cases "x = node")
      case True
      with nin L have "unplaced (nodes m' node) = unplaced (nodes m1 node)" by blast
      with True nodeN show ?thesis by simp
    next
      case False
      with x have xr: "x \<in> set rest" by simp
      from False same have s: "unplaced (nodes m1 x) = unplaced (nodes m x)" by simp
      then have g: "rm_gate start c (nodes m1 x) = rm_gate start c (nodes m x)"
        by (rule unplaced_gate)
      from s have u: "unplaced ((nodes m1 x)\<lparr>type := REMOVAL, clk := c\<rparr>)
          = unplaced ((nodes m x)\<lparr>type := REMOVAL, clk := c\<rparr>)"
        by (cases "nodes m1 x", cases "nodes m x") (simp add: unplaced_def)
      from L xr g s u show ?thesis by auto
    qed
  qed
  from N obtain s0 where o1: "operations b1 = operations b @
              map (\<lambda>l. RemovalOperation s0 l) (removed_lengths start c m [node])"
    by blast
  from L rl obtain starts where ls: "length starts = length (removed_lengths start c m rest)"
    and o2: "operations b' = operations b1 @
                 map (\<lambda>(s, l). RemovalOperation s l) (zip starts (removed_lengths start c m rest))"
    by auto
  have split: "removed_lengths start c m (node # rest)
      = removed_lengths start c m [node] @ removed_lengths start c m rest"
    by (simp add: removed_lengths_def)
  let ?k = "length (removed_lengths start c m [node])"
  have z: "map (\<lambda>l. RemovalOperation s0 l) (removed_lengths start c m [node])
      = map (\<lambda>(s, l). RemovalOperation s l) (zip (replicate ?k s0) (removed_lengths start c m [node]))"
    by (simp add: removed_lengths_def)
  have c3: "\<exists>starts. length starts = length (removed_lengths start c m (node # rest))
             \<and> operations b' = operations b @
                 map (\<lambda>(s, l). RemovalOperation s l) (zip starts (removed_lengths start c m (node # rest)))"
    by (rule exI[where x = "replicate ?k s0 @ starts"]) (simp add: split o1 o2 ls z)
  from c1 c2 c3 show ?case by blast
qed

text \<open>
  When the loop over the distinct nodes of \<^verbatim>\<open>rm_range\<close> returns: a node of the range
  is re-typed to \<open>REMOVAL\<close> and gets the clock \<open>c\<close> if its clock was at most \<open>c\<close>
  and its start has as many levels as \<open>start\<close>; every other node of the range keeps
  its type, its clock and its anchors; and the operations emitted are, in order, one
  removal for each gated node whose \<^verbatim>\<open>ldoc_length\<close> is not 0, of that length.
\<close>

lemma rm_loop_retypes:
  assumes "distinct rm_range" and "rm_loop E start c rm_range (b, m) = Inr (b', m')"
  shows "(\<forall>node \<in> set rm_range.
            (rm_gate start c (nodes m node) \<longrightarrow>
               type (nodes m' node) = REMOVAL \<and> clk (nodes m' node) = c)
          \<and> (\<not> rm_gate start c (nodes m node) \<longrightarrow>
               type (nodes m' node) = type (nodes m node) \<and> clk (nodes m' node) = clk (nodes m node)
               \<and> left_anchor (nodes m' node) = left_anchor (nodes m node)
               \<and> right_anchor (nodes m' node) = right_anchor (nodes m node)))
       \<and> (\<exists>starts. length starts = length (removed_lengths start c m rm_range)
             \<and> operations b' = operations b @
                 map (\<lambda>(s, l). RemovalOperation s l) (zip starts (removed_lengths start c m rm_range)))"
proof -
  note F = rm_loop_frame[OF assms]
  have "\<forall>node \<in> set rm_range.
            (rm_gate start c (nodes m node) \<longrightarrow>
               type (nodes m' node) = REMOVAL \<and> clk (nodes m' node) = c)
          \<and> (\<not> rm_gate start c (nodes m node) \<longrightarrow>
               type (nodes m' node) = type (nodes m node) \<and> clk (nodes m' node) = clk (nodes m node)
               \<and> left_anchor (nodes m' node) = left_anchor (nodes m node)
               \<and> right_anchor (nodes m' node) = right_anchor (nodes m node))"
  proof
    fix node assume n: "node \<in> set rm_range"
    show "(rm_gate start c (nodes m node) \<longrightarrow>
               type (nodes m' node) = REMOVAL \<and> clk (nodes m' node) = c)
          \<and> (\<not> rm_gate start c (nodes m node) \<longrightarrow>
               type (nodes m' node) = type (nodes m node) \<and> clk (nodes m' node) = clk (nodes m node)
               \<and> left_anchor (nodes m' node) = left_anchor (nodes m node)
               \<and> right_anchor (nodes m' node) = right_anchor (nodes m node))"
    proof (cases "rm_gate start c (nodes m node)")
      case True
      with F n have "unplaced (nodes m' node) = unplaced ((nodes m node)\<lparr>type := REMOVAL, clk := c\<rparr>)"
        by blast
      from unplaced_fields[OF this] True show ?thesis by simp
    next
      case False
      with F n have "unplaced (nodes m' node) = unplaced (nodes m node)" by blast
      from unplaced_fields[OF this] False show ?thesis by simp
    qed
  qed
  with F show ?thesis by blast
qed

text \<open>
  The anchor patches that follow the loop write anchors and \<^verbatim>\<open>conflict_with\<close> sets:
  they leave the type and the clock of every node as they are.
\<close>

lemma kinds_upd:
  "(\<And>n. type (f n) = type n \<and> clk (f n) = clk n) \<Longrightarrow> kinds (upd r f m) = kinds m"
  by (rule ext) (simp add: kinds_def upd_def)

lemma kinds_reduceLeft: "kinds (upd r (reduceLeft p) m) = kinds m"
  by (rule kinds_upd) (simp add: reduceLeft_def split: left_anchor_t.splits)

lemma kinds_reduceRight: "kinds (upd r (reduceRight p) m) = kinds m"
  by (rule kinds_upd) (simp add: reduceRight_def split: right_anchor_t.splits)

lemma kinds_conflicts: "kinds (upd r (\<lambda>n. n\<lparr>conflict_with := g n\<rparr>) m) = kinds m"
  by (rule kinds_upd) simp

lemma kinds_left_anchor: "kinds (upd r (\<lambda>n. n\<lparr>left_anchor := g n\<rparr>) m) = kinds m"
  by (rule kinds_upd) simp

lemma kinds_right_anchor: "kinds (upd r (\<lambda>n. n\<lparr>right_anchor := g n\<rparr>) m) = kinds m"
  by (rule kinds_upd) simp

lemmas kinds_simps = kinds_reduceLeft kinds_reduceRight kinds_conflicts kinds_left_anchor
  kinds_right_anchor

lemma kinds_fixConflicts: "kinds (fixConflicts backwards node rm_nodes m) = kinds m"
  by (induction rm_nodes arbitrary: m)
    (auto simp: kinds_simps split: left_anchor_t.splits right_anchor_t.splits)

lemma kinds_new_removal_scan: "kinds (new_removal_scan backwards node rm_nodes scan m) = kinds m"
  by (induction scan arbitrary: m)
    (auto simp: kinds_simps kinds_fixConflicts split: left_anchor_t.splits right_anchor_t.splits)

lemma kinds_new_removal_loop: "kinds (new_removal_loop backwards rng scan rm_nodes m) = kinds m"
  by (induction rng arbitrary: scan rm_nodes m) (auto simp: Let_def kinds_new_removal_scan)

lemma kinds_patchNewRemovalAnchors: "kinds (patchNewRemovalAnchors rng backwards m) = kinds m"
  by (simp add: patchNewRemovalAnchors_def kinds_new_removal_loop)

lemma kinds_patch_visit:
  "patch_visit backwards node snode (s, m) = Inr (s', m') \<Longrightarrow> kinds m' = kinds m"
  by (auto simp: patch_visit_def Let_def kinds_simps
      split: if_splits left_anchor_t.splits right_anchor_t.splits)

lemma kinds_patch_scan:
  "patch_scan backwards node scan (s, m) = Inr (s', m') \<Longrightarrow> kinds m' = kinds m"
proof (induction scan arbitrary: s m)
  case Nil
  then show ?case by simp
next
  case (Cons a scan)
  from Cons.prems obtain s1 m1 where v: "patch_visit backwards node a (s, m) = Inr (s1, m1)"
    and r: "patch_scan backwards node scan (s1, m1) = Inr (s', m')"
    by (auto split: sum.splits)
  from kinds_patch_visit[OF v] Cons.IH[OF r] show ?case by simp
qed

lemma kinds_patch_loop:
  "patch_loop backwards rng (s, m) = Inr (s', m') \<Longrightarrow> kinds m' = kinds m"
proof (induction rng arbitrary: s m)
  case Nil
  then show ?case by simp
next
  case (Cons a rng)
  show ?case
  proof (cases "type (nodes m a) = DATA")
    case True
    with Cons.prems have "patch_loop backwards rng (data_scan_set backwards a m, m) = Inr (s', m')"
      by simp
    from Cons.IH[OF this] show ?thesis .
  next
    case False
    with Cons.prems obtain s1 m1 where v: "patch_scan backwards a s (s, m) = Inr (s1, m1)"
      and r: "patch_loop backwards rng (s1, m1) = Inr (s', m')"
      by (auto split: sum.splits)
    from kinds_patch_scan[OF v] Cons.IH[OF r] show ?thesis by simp
  qed
qed

lemma kinds_patchRemovalAnchors:
  "patchRemovalAnchors rng backwards m = Inr m' \<Longrightarrow> kinds m' = kinds m"
  by (auto simp: patchRemovalAnchors_def split: sum.splits dest: kinds_patch_loop)

text \<open>
  The document of two elements is reached by two insertions in order, and the removal of
  clock 1 over both elements returns one removal and moves the right anchor of the first.
\<close>

lemma doc2_reached:
  "apply_ops env_ex new_ListDocumentModel [InsertOp 0 None None 1 5, InsertOp 0 (Some [(1, 0)]) None 1 0]
     = Inr doc2"
proof -
  have i1: "insertLogoot env_ex new_ListDocumentModel 0 None None 1 5 =
           Inr ([InsertionOperation 0 0 1], inserted_doc [(0, 0)] 1 DATA 5)"
  proof (rule insert_into_empty)
    show "new_LogootPosition env_ex 0 1 None None = Inr [(0, 0)]"
      by (simp add: env_ex_def top_level_position_def)
    show "\<And>m lo hi b. bst m = [] \<Longrightarrow> prefSearch env_ex m lo hi b = ([], [], [])"
      by (simp add: env_ex_def range_search_def)
    show "\<And>bs add m. sliceNodesIntoRanges env_ex bs [] add m = Inr (replicate (Suc (length bs)) [], m)"
    proof -
      fix bs :: "LogootPosition list" and add :: "ref \<Rightarrow> ListDocumentModel \<Rightarrow> error + ListDocumentModel" and m
      have "partition_at m bs [] = replicate (Suc (length bs)) []"
        by (induction bs) simp_all
      then show "sliceNodesIntoRanges env_ex bs [] add m = Inr (replicate (Suc (length bs)) [], m)"
        by (simp add: env_ex_def)
    qed
    show "\<And>r m. bst m = [] \<Longrightarrow> bst_add env_ex r m = m\<lparr>bst := [r]\<rparr>"
      by (simp add: env_ex_def)
  qed simp_all
  have i2: "insertLogoot env_ex (inserted_doc [(0, 0)] 1 DATA 5) 0 (Some [(1, 0)]) None 1 0 =
           Inr ([InsertionOperation 1 0 1], doc2)"
    apply (simp add: insertLogoot_def constructSkipRanges_def inserted_doc_def new_AnchorLogootNode_def
        env_ex_def top_level_position_def range_search_def l_atom_def inverseOffsetLowest_def
        offsetLowest_def sort_cmp_def Let_def alloc_def dummy_value_def eq_def lt_def lteq_def
        logoot_end_def ldoc_end_def ldoc_start_def ldoc_length_def
        new_OperationBuffer_def new_ListDocumentModel_def)
    apply (simp add: fillSkipRanges_def fill_node_def fill_space_def Let_def levels_def l_atom_def
        set_atom_def alloc_def new_AnchorLogootNode_def bstadd_def offsetLowest_def
        insert_def ldoc_start_def ldoc_length_def mirror_def inorder_successor_def addSpaceBefore_def
        fill_existing_def logoot_end_def)
    apply (simp add: linkFilledSkipRanges_def reduceLeft_def reduceRight_def upd_def doc2_def
        fillRangeConflicts_def neighbour_conflict_def levels_def succ_chain_def
        finish_insert_def opt_list_def patchRemovalAnchors_def data_scan_set_def offsetLowest_def
        createScanset_def set_add_def set_delete_def true_left_def true_right_def eq_def gt_def lt_def logoot_end_def
        new_ListDocumentModel_def new_AnchorLogootNode_def fun_upd_twist cong: if_cong sum.case_cong)
    done
  show ?thesis by (simp add: apply_op_def i1 i2)
qed

lemma doc2_removed:
  "\<exists>m'. removeLogoot env_ex doc2 [(0, 0)] 2 1 = Inr ([RemovalOperation 1 1], m')
        \<and> right_anchor (nodes m' 1) = RightPos [(2, 0)]"
proof -
  have o: "offsetLowest [(0, 0)] 2 = [(2, 0)]"
    by (simp add: offsetLowest_def)
  have ps: "prefSearch env_ex doc2 (Some [(0, 0)]) (Some [(2, 0)]) LCGO = ([], [Suc 0, 3], [])"
    by (simp add: env_ex_def range_search_def doc2_def new_AnchorLogootNode_def lt_def gteq_def)
  have sl: "sliceNodesIntoRanges env_ex [[(0, 0)], [(2, 0)]] [Suc 0, 3] add doc2 = Inr ([[], [Suc 0, 3], []], doc2)" for add
    by (simp add: env_ex_def doc2_def new_AnchorLogootNode_def lt_def)
  have lp: "rm_loop env_ex [(0, 0)] 1 [Suc 0, 3] (new_OperationBuffer (ldm_opts doc2) 0, doc2)
      = Inr ((new_OperationBuffer (ldm_opts doc2) 0)\<lparr>operations := [RemovalOperation 1 1]\<rparr>,
             upd 3 (\<lambda>n. n\<lparr>type := REMOVAL, clk := 1\<rparr>) doc2)"
    by (simp add: rm_node_def rm_gate_def doc2_def new_AnchorLogootNode_def remove_def mirror_def
        ldoc_start_def ldoc_length_def inorder_successor_def new_OperationBuffer_def upd_def)
  show ?thesis
    apply (simp add: removeLogoot_def o ps sl lp del: rm_loop.simps)
    apply (simp add: upd_def doc2_def new_AnchorLogootNode_def new_ListDocumentModel_def
        patchNewRemovalAnchors_def createScanset_def set_add_def true_left_def true_right_def eq_def
        logoot_end_def offsetLowest_def reduceLeft_def reduceRight_def Let_def lt_def lteq_def gteq_def)
    apply (simp add: patchRemovalAnchors_def data_scan_set_def lt_def gt_def logoot_end_def
        offsetLowest_def patch_visit_def set_delete_def set_add_def upd_def true_left_def
        true_right_def Let_def reduceLeft_def reduceRight_def)
    done
qed

text \<open>
  C5 (as amended). Let \<^verbatim>\<open>removeLogoot(start, length, clk)\<close> return, and let
  \<open>rm_range\<close> be the removal range the slicing has returned, of distinct nodes. When
  the call returns, a node of the range is a \<open>REMOVAL\<close> of clock \<open>c\<close> if its clock
  was at most \<open>c\<close> and its start has as many levels as \<open>start\<close>, and every other
  node of the range has the type and the clock it had. The operations returned are, in
  order, one removal for each gated node whose \<^verbatim>\<open>ldoc_length\<close> is not 0, of that
  length: a gated tombstone is re-stamped without an operation. The re-typing loop leaves
  the anchors of the nodes it does not re-type as they are; the anchor patches at the end
  of the call may then rewrite them.
\<close>

theorem removeLogoot_retypes:
  assumes slice: "sliceNodesIntoRanges E [start, offsetLowest start len]
             (fst (prefSearch E m (Some start) (Some (offsetLowest start len)) LCGO)
              @ fst (snd (prefSearch E m (Some start) (Some (offsetLowest start len)) LCGO))
              @ snd (snd (prefSearch E m (Some start) (Some (offsetLowest start len)) LCGO)))
             (bstadd E) m
           = Inr ([lesser0, rm_range, greater0], m1)"
    and dist: "distinct rm_range"
    and run: "removeLogoot E m start len c = Inr (ops, m')"
  shows "(\<forall>node \<in> set rm_range.
            (rm_gate start c (nodes m1 node) \<longrightarrow>
               type (nodes m' node) = REMOVAL \<and> clk (nodes m' node) = c)
          \<and> (\<not> rm_gate start c (nodes m1 node) \<longrightarrow>
               type (nodes m' node) = type (nodes m1 node) \<and> clk (nodes m' node) = clk (nodes m1 node)))
       \<and> (\<exists>starts. length starts = length (removed_lengths start c m1 rm_range)
             \<and> ops = map (\<lambda>(s, l). RemovalOperation s l) (zip starts (removed_lengths start c m1 rm_range)))
       \<and> (\<exists>b2 m2. rm_loop E start c rm_range (new_OperationBuffer (ldm_opts m) 0, m1) = Inr (b2, m2)
             \<and> (\<forall>node \<in> set rm_range. \<not> rm_gate start c (nodes m1 node) \<longrightarrow>
                   left_anchor (nodes m2 node) = left_anchor (nodes m1 node)
                   \<and> right_anchor (nodes m2 node) = right_anchor (nodes m1 node)))"
proof -
  let ?b = "new_OperationBuffer (ldm_opts m) 0"
  from run slice obtain b2 m2 where l: "rm_loop E start c rm_range (?b, m1) = Inr (b2, m2)"
    by (auto simp: removeLogoot_def Let_def split: sum.splits)
  from run slice l obtain fr m5 where o: "ops = operations b2"
    and p5: "patchRemovalAnchors fr False
               (patchNewRemovalAnchors fr True (patchNewRemovalAnchors fr False m2)) = Inr m5"
    and p6: "patchRemovalAnchors fr True m5 = Inr m'"
    by (auto simp: removeLogoot_def Let_def split: sum.splits)
  have k: "kinds m' = kinds m2"
    using kinds_patchRemovalAnchors[OF p6] kinds_patchRemovalAnchors[OF p5]
    by (simp add: kinds_patchNewRemovalAnchors)
  have same: "type (nodes m' r) = type (nodes m2 r) \<and> clk (nodes m' r) = clk (nodes m2 r)" for r
    using fun_cong[OF k, of r] by (simp add: kinds_def)
  note L = rm_loop_retypes[OF dist l]
  have c1: "\<forall>node \<in> set rm_range.
            (rm_gate start c (nodes m1 node) \<longrightarrow>
               type (nodes m' node) = REMOVAL \<and> clk (nodes m' node) = c)
          \<and> (\<not> rm_gate start c (nodes m1 node) \<longrightarrow>
               type (nodes m' node) = type (nodes m1 node) \<and> clk (nodes m' node) = clk (nodes m1 node))"
    using L same by simp
  have c2: "\<exists>starts. length starts = length (removed_lengths start c m1 rm_range)
             \<and> ops = map (\<lambda>(s, l). RemovalOperation s l) (zip starts (removed_lengths start c m1 rm_range))"
    using L o by (simp add: new_OperationBuffer_def)
  have c3: "\<forall>node \<in> set rm_range. \<not> rm_gate start c (nodes m1 node) \<longrightarrow>
                   left_anchor (nodes m2 node) = left_anchor (nodes m1 node)
                   \<and> right_anchor (nodes m2 node) = right_anchor (nodes m1 node)"
    using L by simp
  from c1 c2 c3 l show ?thesis by blast
qed

text \<open>
  The theorem at work on the document of two elements, for a removal of clock 1 over
  both: the element of clock 5 keeps its type and clock, the element of clock 0 is
  re-typed, and one removal of length 1 is returned.
\<close>

theorem removeLogoot_retypes_witness:
  "\<exists>ops m'. removeLogoot env_ex doc2 [(0, 0)] 2 1 = Inr (ops, m')
     \<and> type (nodes m' 1) = DATA \<and> clk (nodes m' 1) = 5
     \<and> type (nodes m' 3) = REMOVAL \<and> clk (nodes m' 3) = 1
     \<and> (\<exists>s. ops = [RemovalOperation s 1])"
proof -
  from doc2_removed obtain m' where
    r: "removeLogoot env_ex doc2 [(0, 0)] 2 1 = Inr ([RemovalOperation 1 1], m')"
    by blast
  have sl: "sliceNodesIntoRanges env_ex [[(0, 0)], offsetLowest [(0, 0)] 2]
             (fst (prefSearch env_ex doc2 (Some [(0, 0)]) (Some (offsetLowest [(0, 0)] 2)) LCGO)
              @ fst (snd (prefSearch env_ex doc2 (Some [(0, 0)]) (Some (offsetLowest [(0, 0)] 2)) LCGO))
              @ snd (snd (prefSearch env_ex doc2 (Some [(0, 0)]) (Some (offsetLowest [(0, 0)] 2)) LCGO)))
             (bstadd env_ex) doc2
           = Inr ([[], [1, 3], []], doc2)"
    by (simp add: env_ex_def range_search_def doc2_def new_AnchorLogootNode_def lt_def gteq_def
        offsetLowest_def)
  have d: "distinct [1::nat, 3]" by simp
  have g: "\<not> rm_gate [(0, 0)] 1 (nodes doc2 1) \<and> rm_gate [(0, 0)] 1 (nodes doc2 3)"
    by (simp add: rm_gate_def doc2_def new_AnchorLogootNode_def)
  have f: "type (nodes doc2 1) = DATA \<and> clk (nodes doc2 1) = 5"
    by (simp add: doc2_def new_AnchorLogootNode_def)
  from removeLogoot_retypes[OF sl d r] g f
  have "type (nodes m' 1) = DATA \<and> clk (nodes m' 1) = 5
     \<and> type (nodes m' 3) = REMOVAL \<and> clk (nodes m' 3) = 1"
    by simp
  with r show ?thesis by blast
qed

text \<open>
  C5 as stated fails in two ways. A tombstone of clock 0 under a removal of clock 1 passes
  the gate and gets the clock 1, and no operation is emitted. And on the document two
  insertions in order leave, a removal of clock 1 over both elements does not re-type the
  element of clock 5, yet moves its right anchor from atom 1 to atom 2: the forward pass
  of \<^verbatim>\<open>patchRemovalAnchors\<close> extends the anchor over the new tombstone.
\<close>

theorem removal_emits_nothing_and_moves_anchor:
  "rm_gate [(2, 0)] 1 (nodes (doc3 0) 1)
   \<and> (\<exists>b' m'. rm_loop env_ex [(2, 0)] 1 [1] (new_OperationBuffer \<lparr>agressively_test_bst = False\<rparr> 0, doc3 0)
          = Inr (b', m')
        \<and> type (nodes m' 1) = REMOVAL \<and> clk (nodes m' 1) = 1 \<and> operations b' = [])
   \<and> apply_ops env_ex new_ListDocumentModel [InsertOp 0 None None 1 5, InsertOp 0 (Some [(1, 0)]) None 1 0]
        = Inr doc2
   \<and> \<not> rm_gate [(0, 0)] 1 (nodes doc2 1)
   \<and> right_anchor (nodes doc2 1) = RightPos [(1, 0)]
   \<and> (\<exists>m'. removeLogoot env_ex doc2 [(0, 0)] 2 1 = Inr ([RemovalOperation 1 1], m')
        \<and> right_anchor (nodes m' 1) = RightPos [(2, 0)])"
proof -
  have a: "rm_gate [(2, 0)] 1 (nodes (doc3 0) 1)
   \<and> (\<exists>b' m'. rm_loop env_ex [(2, 0)] 1 [1] (new_OperationBuffer \<lparr>agressively_test_bst = False\<rparr> 0, doc3 0)
          = Inr (b', m')
        \<and> type (nodes m' 1) = REMOVAL \<and> clk (nodes m' 1) = 1 \<and> operations b' = [])"
    by (simp add: rm_node_def rm_gate_def doc3_def remove_def ldoc_start_def ldoc_length_def
        new_OperationBuffer_def upd_def)
  have b: "\<not> rm_gate [(0, 0)] 1 (nodes doc2 1) \<and> right_anchor (nodes doc2 1) = RightPos [(1, 0)]"
    by (simp add: rm_gate_def doc2_def new_AnchorLogootNode_def)
  from a b doc2_reached doc2_removed show ?thesis by blast
qed

section \<open>The conflict sets after an insertion that arrives before its left neighbour\<close>

text \<open>The order of positions is asymmetric.\<close>

lemma cmp_antisym: "cmp p q < 0 \<Longrightarrow> \<not> cmp q p < 0"
  by (induction p q rule: cmp.induct) (auto split: if_splits)

text \<open>
  The insertion of a run whose left neighbour \<open>left_p\<close> lies beyond the end of the only
  node of the tree: the run that ended at \<open>left_p\<close> has not been delivered yet. It is
  evaluated for any implementation of the search, of the slicing and of the tree that
  returns the node of the tree as a lesser node of the search, slices it before the
  left neighbour, and adds the new node after it.
\<close>

lemma insert_after_gap:
  assumes pos: "new_LogootPosition E br k (Some left_p) None = Inr s" and ne: "s \<noteq> []"
    and len: "0 < k" and lenn: "0 < n"
    and gap: "lt (offsetLowest p n) left_p"
    and search_left: "\<And>m. map (\<lambda>z. logoot_start (nodes m z)) (bst m) = [p]
          \<Longrightarrow> prefSearch E m (Some (inverseOffsetLowest left_p 1)) None LOGO = (bst m, [], [])"
    and slice_left: "\<And>m a add. logoot_start (nodes m a) = p
          \<Longrightarrow> sliceNodesIntoRanges E [left_p, s, offsetLowest s k, offsetLowest s k] [a] add m
                = Inr ([[a], [], [], [], []], m)"
    and add_after: "\<And>m r. map (\<lambda>z. logoot_start (nodes m z)) (bst m) = [p] \<Longrightarrow> logoot_start (nodes m r) = s
          \<Longrightarrow> bst_add E r m = m\<lparr>bst := bst m @ [r]\<rparr>"
  shows "insertLogoot E (inserted_doc p n DATA c) br (Some left_p) None k c' =
           Inr ([InsertionOperation n 0 k], gap_doc p n c left_p s k c')"
  apply (insert len lenn gap)
  apply (simp add: insertLogoot_def pos constructSkipRanges_def inserted_doc_def new_AnchorLogootNode_def
      search_left slice_left sort_cmp_def Let_def alloc_def dummy_value_def eq_def lt_def logoot_end_def
      ldoc_end_def ldoc_start_def ldoc_length_def
      new_OperationBuffer_def new_ListDocumentModel_def)
  apply (simp add: fillSkipRanges_def fill_node_def fill_space_def Let_def
      l_atom_offsetLowest[OF ne] set_atom_same alloc_def new_AnchorLogootNode_def bstadd_def add_after
      insert_def ldoc_start_def ldoc_length_def mirror_def inorder_successor_def addSpaceBefore_def
      fill_existing_def logoot_end_def)
  apply (simp add: linkFilledSkipRanges_def reduceLeft_def upd_def gap_doc_def fillRangeConflicts_def
      finish_insert_def opt_list_def patchRemovalAnchors_def data_scan_set_def
      createScanset_def set_add_def true_left_def true_right_def
      new_ListDocumentModel_def new_AnchorLogootNode_def fun_upd_twist cong: if_cong sum.case_cong)
  done

text \<open>The loop of \<^verbatim>\<open>selfTest\<close> on the two documents.\<close>

lemma selfTest_single:
  assumes "0 < n"
  shows "selfTest_loop (inserted_doc p n DATA c) 0 None (bst (inserted_doc p n DATA c)) = None"
  using assms
  by (simp add: inserted_doc_def new_AnchorLogootNode_def ldoc_start_def)

lemma selfTest_gap:
  assumes "lt p s" and "lt (offsetLowest p n) left_p" and "0 < n" and "0 < k"
  shows "selfTest_loop (gap_doc p n c left_p s k c') 0 None (bst (gap_doc p n c left_p s k c'))
           = Some (FatalError ''Expected node to have conflict'')"
  using assms cmp_antisym[of p s] cmp_antisym[of "offsetLowest p n" left_p]
  by (simp add: gap_doc_def new_AnchorLogootNode_def ldoc_start_def ldoc_end_def
      ldoc_length_def expected_conflict_def true_left_def true_right_def lt_def logoot_end_def)

text \<open>
  C2 (the code does not do what the claim says). Take the insertion of \<open>n\<close> elements
  into the empty document, at the position \<open>p\<close> the constructor generates, and then an
  insertion of \<open>k\<close> elements whose left neighbour \<open>left_p\<close> lies beyond the end of
  the first run, at a position \<open>s\<close> after \<open>p\<close>: the run between the two is still to
  be delivered. Both calls of \<^verbatim>\<open>insertLogoot\<close> return. After the first the loop of
  \<^verbatim>\<open>selfTest\<close> finds nothing. After the second it throws
  \<open>Expected node to have conflict\<close>: the right anchor of the first node is the end of
  the document, so the second node is expected to have it in its
  \<^verbatim>\<open>conflict_with\<close>, which is empty. \<^verbatim>\<open>constructSkipRanges\<close> drops the node before
  \<open>left_p\<close> as left anchor because it does not end at \<open>left_p\<close>, and with
  \<^verbatim>\<open>nc_left\<close> empty \<^verbatim>\<open>fillRangeConflicts\<close> has no left neighbour to start from.
\<close>

theorem out_of_order_insertion_fails_selfTest:
  assumes pos_first: "new_LogootPosition E br n None None = Inr p" and ne_first: "p \<noteq> []"
    and len_first: "0 < n"
    and pos_late: "new_LogootPosition E br' k (Some left_p) None = Inr s" and ne_late: "s \<noteq> []"
    and len_late: "0 < k"
    and gap: "lt (offsetLowest p n) left_p" and order: "lt p s"
    and search_empty: "\<And>m lo hi b. bst m = [] \<Longrightarrow> prefSearch E m lo hi b = ([], [], [])"
    and slice_empty: "\<And>bs add m. sliceNodesIntoRanges E bs [] add m = Inr (replicate (Suc (length bs)) [], m)"
    and add_empty: "\<And>r m. bst m = [] \<Longrightarrow> bst_add E r m = m\<lparr>bst := [r]\<rparr>"
    and search_left: "\<And>m. map (\<lambda>z. logoot_start (nodes m z)) (bst m) = [p]
          \<Longrightarrow> prefSearch E m (Some (inverseOffsetLowest left_p 1)) None LOGO = (bst m, [], [])"
    and slice_left: "\<And>m a add. logoot_start (nodes m a) = p
          \<Longrightarrow> sliceNodesIntoRanges E [left_p, s, offsetLowest s k, offsetLowest s k] [a] add m
                = Inr ([[a], [], [], [], []], m)"
    and add_after: "\<And>m r. map (\<lambda>z. logoot_start (nodes m z)) (bst m) = [p] \<Longrightarrow> logoot_start (nodes m r) = s
          \<Longrightarrow> bst_add E r m = m\<lparr>bst := bst m @ [r]\<rparr>"
  shows "\<exists>m1 m2.
           apply_op E new_ListDocumentModel (InsertOp br None None n c) = Inr m1
         \<and> selfTest_loop m1 0 None (bst m1) = None
         \<and> apply_op E m1 (InsertOp br' (Some left_p) None k c') = Inr m2
         \<and> selfTest_loop m2 0 None (bst m2) = Some (FatalError ''Expected node to have conflict'')
         \<and> selfTest E m2 \<noteq> None
         \<and> map (\<lambda>x. (logoot_start x, true_right x, conflict_with x)) (all_nodes m2)
             = [(p, DocEnd, []), (s, DocEnd, [])]"
proof -
  have i1: "insertLogoot E new_ListDocumentModel br None None n c =
           Inr ([InsertionOperation 0 0 n], inserted_doc p n DATA c)"
    by (rule insert_into_empty[OF pos_first ne_first len_first search_empty slice_empty add_empty])
  have i2: "insertLogoot E (inserted_doc p n DATA c) br' (Some left_p) None k c' =
           Inr ([InsertionOperation n 0 k], gap_doc p n c left_p s k c')"
    by (rule insert_after_gap[OF pos_late ne_late len_late len_first gap search_left slice_left add_after])
  have a: "apply_op E new_ListDocumentModel (InsertOp br None None n c) = Inr (inserted_doc p n DATA c)"
    by (simp add: apply_op_def i1)
  have b: "apply_op E (inserted_doc p n DATA c) (InsertOp br' (Some left_p) None k c')
      = Inr (gap_doc p n c left_p s k c')"
    by (simp add: apply_op_def i2)
  have n: "map (\<lambda>x. (logoot_start x, true_right x, conflict_with x)) (all_nodes (gap_doc p n c left_p s k c'))
             = [(p, DocEnd, []), (s, DocEnd, [])]"
    by (simp add: all_nodes_def gap_doc_def new_AnchorLogootNode_def true_right_def)
  have t1: "selfTest_loop (inserted_doc p n DATA c) 0 None (bst (inserted_doc p n DATA c)) = None"
    by (rule selfTest_single[OF len_first])
  have t2: "selfTest_loop (gap_doc p n c left_p s k c') 0 None (bst (gap_doc p n c left_p s k c'))
           = Some (FatalError ''Expected node to have conflict'')"
    by (rule selfTest_gap[OF order gap len_first len_late])
  have t3: "selfTest E (gap_doc p n c left_p s k c') \<noteq> None"
    by (simp add: selfTest_def t2 split: option.splits)
  show ?thesis
    by (intro exI[of _ "inserted_doc p n DATA c"] exI[of _ "gap_doc p n c left_p s k c'"] conjI a b n t1 t2 t3)
qed

text \<open>
  The theorem at work on the instance of the parameters: one element on branch 0 at atom
  0, then one element at atom 2 whose left neighbour is the position of atom 2, the end
  of an element at atom 1 that has not arrived.
\<close>

theorem out_of_order_insertion_fails_selfTest_witness:
  "\<exists>m1 m2.
           apply_op env_ex new_ListDocumentModel (InsertOp 0 None None 1 0) = Inr m1
         \<and> selfTest_loop m1 0 None (bst m1) = None
         \<and> apply_op env_ex m1 (InsertOp 0 (Some [(2, 0)]) None 1 0) = Inr m2
         \<and> selfTest_loop m2 0 None (bst m2) = Some (FatalError ''Expected node to have conflict'')
         \<and> selfTest env_ex m2 \<noteq> None
         \<and> map (\<lambda>x. (logoot_start x, true_right x, conflict_with x)) (all_nodes m2)
             = [([(0, 0)], DocEnd, []), ([(2, 0)], DocEnd, [])]"
proof (rule out_of_order_insertion_fails_selfTest[where p = "[(0, 0)]" and s = "[(2, 0)]"])
  show "new_LogootPosition env_ex 0 1 None None = Inr [(0, 0)]"
    by (simp add: env_ex_def top_level_position_def)
  show "new_LogootPosition env_ex 0 1 (Some [(2, 0)]) None = Inr [(2, 0)]"
    by (simp add: env_ex_def top_level_position_def l_atom_def)
  show "lt (offsetLowest [(0, 0)] 1) [(2, 0)]" by (simp add: lt_def offsetLowest_def)
  show "lt [(0, 0)] [(2, 0)]" by (simp add: lt_def)
  show "\<And>m lo hi b. bst m = [] \<Longrightarrow> prefSearch env_ex m lo hi b = ([], [], [])"
    by (simp add: env_ex_def range_search_def)
  show "\<And>bs add m. sliceNodesIntoRanges env_ex bs [] add m = Inr (replicate (Suc (length bs)) [], m)"
  proof -
    fix bs :: "LogootPosition list" and add :: "ref \<Rightarrow> ListDocumentModel \<Rightarrow> error + ListDocumentModel" and m
    have "partition_at m bs [] = replicate (Suc (length bs)) []"
      by (induction bs) simp_all
    then show "sliceNodesIntoRanges env_ex bs [] add m = Inr (replicate (Suc (length bs)) [], m)"
      by (simp add: env_ex_def)
  qed
  show "\<And>r m. bst m = [] \<Longrightarrow> bst_add env_ex r m = m\<lparr>bst := [r]\<rparr>"
    by (simp add: env_ex_def)
  show "\<And>m. map (\<lambda>z. logoot_start (nodes m z)) (bst m) = [[(0, 0)]]
          \<Longrightarrow> prefSearch env_ex m (Some (inverseOffsetLowest [(2, 0)] 1)) None LOGO = (bst m, [], [])"
    by (auto simp: env_ex_def range_search_def lteq_def inverseOffsetLowest_def offsetLowest_def)
  show "\<And>m a add. logoot_start (nodes m a) = [(0, 0)]
          \<Longrightarrow> sliceNodesIntoRanges env_ex [[(2, 0)], [(2, 0)], offsetLowest [(2, 0)] 1, offsetLowest [(2, 0)] 1] [a] add m
                = Inr ([[a], [], [], [], []], m)"
    by (simp add: env_ex_def lt_def offsetLowest_def)
  show "\<And>m r. map (\<lambda>z. logoot_start (nodes m z)) (bst m) = [[(0, 0)]] \<Longrightarrow> logoot_start (nodes m r) = [(2, 0)]
          \<Longrightarrow> bst_add env_ex r m = m\<lparr>bst := bst m @ [r]\<rparr>"
    by (auto simp: env_ex_def)
qed simp_all

section \<open>Repeating an insertion\<close>

text \<open>Positions that differ in the atom of the lowest level only.\<close>

lemma offsetLowest_0: "offsetLowest p 0 = p"
  by (cases p rule: rev_cases) (auto simp: offsetLowest_def)

lemma offsetLowest_add: "offsetLowest (offsetLowest p a) b = offsetLowest p (a + b)"
  by (cases p rule: rev_cases) (auto simp: offsetLowest_def)

lemma cmp_append: "cmp (xs @ ys) (xs @ zs) = cmp ys zs"
  by (induction xs) auto

lemma cmp_offsets:
  "p \<noteq> [] \<Longrightarrow> cmp (offsetLowest p a) (offsetLowest p b) = (if a < b then - 1 else if b < a then 1 else 0)"
  by (cases p rule: rev_cases) (auto simp: offsetLowest_def cmp_append)

lemma cmp_offset_right:
  "p \<noteq> [] \<Longrightarrow> cmp p (offsetLowest p b) = (if 0 < b then - 1 else if b < 0 then 1 else 0)"
  using cmp_offsets[of p 0 b] by (simp add: offsetLowest_0)

lemma cmp_offset_left:
  "p \<noteq> [] \<Longrightarrow> cmp (offsetLowest p a) p = (if a < 0 then - 1 else if 0 < a then 1 else 0)"
  using cmp_offsets[of p a 0] by (simp add: offsetLowest_0)

lemma cmp_same: "cmp p p = 0"
  by (induction p) auto

lemma set_atom_offsetLowest:
  "p \<noteq> [] \<Longrightarrow> set_atom (offsetLowest p a) (levels p) v = offsetLowest p (v - l_atom p (levels p))"
  by (cases p rule: rev_cases) (auto simp: offsetLowest_def set_atom_def l_atom_def levels_def nth_append)

lemma set_atom_offset:
  "p \<noteq> [] \<Longrightarrow> set_atom p (levels p) v = offsetLowest p (v - l_atom p (levels p))"
  using set_atom_offsetLowest[of p 0 v] by (simp add: offsetLowest_0)

lemmas pos_simps = offsetLowest_0 offsetLowest_add cmp_offsets cmp_offset_right cmp_offset_left cmp_same
  offsetLowest_levels

text \<open>
  The five calls of the scenario, for any implementation of the classes that are not in
  the file that behaves on these documents as follows: the search returns the nodes
  below, inside and above the range in its three buckets, the slicing puts each node in
  the range it lies in (no node has to be split), the tree keeps the nodes in the order
  of their start positions, and \<^verbatim>\<open>updateNeighborConflicts\<close> records nothing and
  returns false for a neighbour whose anchor is the boundary of the node.
\<close>

lemma insert_front:
  assumes pos: "new_LogootPosition E br w None (Some p) = Inr (inverseOffsetLowest p w)" and ne: "p \<noteq> []"
    and len: "0 < w"
    and search_empty: "\<And>m lo hi b. bst m = [] \<Longrightarrow> prefSearch E m lo hi b = ([], [], [])"
    and slice_empty: "\<And>bs add m. sliceNodesIntoRanges E bs [] add m = Inr (replicate (Suc (length bs)) [], m)"
    and add_empty: "\<And>r m. bst m = [] \<Longrightarrow> bst_add E r m = m\<lparr>bst := [r]\<rparr>"
  shows "insertLogoot E new_ListDocumentModel br None (Some p) w c =
           Inr ([InsertionOperation 0 0 w], front_doc p w c)"
proof -
  have ne': "offsetLowest p (- w) \<noteq> []"
    using ne offsetLowest_length[of p "- w"] by auto
  show ?thesis
    apply (insert len ne)
    apply (simp add: insertLogoot_def pos inverseOffsetLowest_def constructSkipRanges_def search_empty
        slice_empty sort_cmp_def numeral_eq_Suc Let_def alloc_def dummy_value_def pos_simps
        new_ListDocumentModel_def new_OperationBuffer_def new_AnchorLogootNode_def)
    apply (simp add: fillSkipRanges_def fill_node_def fill_space_def fill_existing_def Let_def
        l_atom_offsetLowest[OF ne] pos_simps set_atom_offsetLowest[OF ne] set_atom_offset[OF ne]
        alloc_def new_AnchorLogootNode_def bstadd_def add_empty
        insert_def ldoc_start_def ldoc_length_def mirror_def inorder_successor_def logoot_end_def upd_def)
    apply (simp add: linkFilledSkipRanges_def fillRangeConflicts_def finish_insert_def opt_list_def
        patchRemovalAnchors_def data_scan_set_def set_add_def true_left_def true_right_def upd_def
        reduceRight_def pos_simps l_atom_offsetLowest[OF ne]
        set_atom_offsetLowest[OF ne] set_atom_offset[OF ne]
        front_doc_def new_ListDocumentModel_def new_AnchorLogootNode_def fun_upd_twist)
    done
qed


lemma insert_behind:
  assumes pos: "new_LogootPosition E br k (Some (offsetLowest p j)) None = Inr (offsetLowest p j)"
    and ne: "p \<noteq> []" and lenw: "0 < w" and lenj: "0 < j" and lenk: "0 < k"
    and search_left: "\<And>m. map (\<lambda>z. logoot_start (nodes m z)) (bst m) = [offsetLowest p (- w)]
          \<Longrightarrow> prefSearch E m (Some (inverseOffsetLowest (offsetLowest p j) 1)) None LOGO = (bst m, [], [])"
    and slice_left: "\<And>m a add. logoot_start (nodes m a) = offsetLowest p (- w)
          \<Longrightarrow> sliceNodesIntoRanges E
                [offsetLowest p j, offsetLowest p j, offsetLowest p (j + k), offsetLowest p (j + k)] [a] add m
                = Inr ([[a], [], [], [], []], m)"
    and add_after: "\<And>m r. map (\<lambda>z. logoot_start (nodes m z)) (bst m) = [offsetLowest p (- w)]
          \<Longrightarrow> logoot_start (nodes m r) = offsetLowest p j
          \<Longrightarrow> bst_add E r m = m\<lparr>bst := bst m @ [r]\<rparr>"
  shows "insertLogoot E (front_doc p w c) br (Some (offsetLowest p j)) None k c' =
           Inr ([InsertionOperation w 0 k], tomb_doc p w c j k DATA c')"
  apply (insert lenw lenj lenk ne)
  apply (simp add: insertLogoot_def pos constructSkipRanges_def front_doc_def new_AnchorLogootNode_def
      search_left slice_left sort_cmp_def Let_def alloc_def dummy_value_def eq_def lt_def logoot_end_def
      ldoc_end_def ldoc_start_def ldoc_length_def pos_simps
      new_OperationBuffer_def new_ListDocumentModel_def)
  apply (simp add: fillSkipRanges_def fill_node_def fill_space_def Let_def pos_simps
      l_atom_offsetLowest[OF ne] set_atom_offsetLowest[OF ne] set_atom_offset[OF ne]
      alloc_def new_AnchorLogootNode_def bstadd_def add_after
      insert_def ldoc_start_def ldoc_length_def mirror_def inorder_successor_def addSpaceBefore_def
      fill_existing_def logoot_end_def)
  apply (simp add: linkFilledSkipRanges_def reduceLeft_def upd_def tomb_doc_def fillRangeConflicts_def
      finish_insert_def opt_list_def patchRemovalAnchors_def data_scan_set_def pos_simps
      createScanset_def set_add_def true_left_def true_right_def
      new_ListDocumentModel_def new_AnchorLogootNode_def fun_upd_twist cong: if_cong sum.case_cong)
  done

lemma remove_behind:
  assumes ne: "p \<noteq> []" and lenw: "0 < w" and lenj: "0 < j" and lenk: "0 < k" and clk: "c' \<le> cr"
    and search_rm: "\<And>m. map (\<lambda>z. logoot_start (nodes m z)) (bst m) = [offsetLowest p (- w), offsetLowest p j]
          \<Longrightarrow> prefSearch E m (Some (offsetLowest p j)) (Some (offsetLowest p (j + k))) LCGO
                = ([hd (bst m)], tl (bst m), [])"
    and slice_rm: "\<And>m a b add. logoot_start (nodes m a) = offsetLowest p (- w)
          \<Longrightarrow> logoot_start (nodes m b) = offsetLowest p j \<Longrightarrow> node_length (nodes m b) = k
          \<Longrightarrow> sliceNodesIntoRanges E [offsetLowest p j, offsetLowest p (j + k)] [a, b] add m
                = Inr ([[a], [b], []], m)"
  shows "removeLogoot E (tomb_doc p w c j k DATA c') (offsetLowest p j) k cr =
           Inr ([RemovalOperation w k], tomb_doc p w c j k REMOVAL cr)"
  apply (insert lenw lenj lenk ne clk)
  apply (simp add: removeLogoot_def tomb_doc_def new_AnchorLogootNode_def search_rm slice_rm pos_simps
      new_OperationBuffer_def new_ListDocumentModel_def)
  apply (simp add: rm_node_def rm_gate_def lteq_def upd_def remove_def mirror_def ldoc_start_def
      ldoc_length_def inorder_successor_def pred_chain_def succ_chain_def offsetLowest_length Let_def
      patchNewRemovalAnchors_def createScanset_def set_add_def true_left_def true_right_def eq_def
      pos_simps patchRemovalAnchors_def data_scan_set_def lt_def gt_def logoot_end_def fun_upd_twist
      patch_visit_def set_delete_def
      cong: if_cong sum.case_cong)
  done

lemma insert_over_tombstone:
  assumes pos: "new_LogootPosition E br (j + k) None None = Inr p"
    and ne: "p \<noteq> []" and lenw: "0 < w" and lenj: "0 < j" and lenk: "0 < k" and clk: "cx < cr"
    and search_all: "\<And>m. prefSearch E m None None LOGO = ([], bst m, [])"
    and pref: "\<And>a b. lt (logoot_start b) (logoot_start a) \<Longrightarrow> \<not> preferential_cmp E a b < 0"
    and slice_two: "\<And>m a b add. logoot_start (nodes m a) = offsetLowest p (- w)
          \<Longrightarrow> logoot_start (nodes m b) = offsetLowest p j
          \<Longrightarrow> sliceNodesIntoRanges E [p, p, offsetLowest p (j + k), offsetLowest p (j + k)] [a, b] add m
                = Inr ([[a], [], [b], [], []], m)"
    and add_mid: "\<And>m r. map (\<lambda>z. logoot_start (nodes m z)) (bst m) = [offsetLowest p (- w), offsetLowest p j]
          \<Longrightarrow> logoot_start (nodes m r) = p
          \<Longrightarrow> bst_add E r m = m\<lparr>bst := [hd (bst m), r] @ tl (bst m)\<rparr>"
    and unc_left: "\<And>node lst add m. lt (logoot_start (nodes m lst)) (logoot_start (nodes m node))
          \<Longrightarrow> right_anchor (nodes m lst) = RightPos (logoot_start (nodes m node))
          \<Longrightarrow> lst \<notin> set (conflict_with (nodes m node))
          \<Longrightarrow> updateNeighborConflicts E node lst add m = Inr (False, m)"
    and unc_right: "\<And>node lst add m. lt (logoot_start (nodes m node)) (logoot_start (nodes m lst))
          \<Longrightarrow> left_anchor (nodes m lst) = LeftPos (logoot_end (nodes m node))
          \<Longrightarrow> lst \<notin> set (conflict_with (nodes m node))
          \<Longrightarrow> updateNeighborConflicts E node lst add m = Inr (False, m)"
  shows "insertLogoot E (tomb_doc p w c j k REMOVAL cr) br None None (j + k) cx =
           Inr ([InsertionOperation w 0 j], refilled_doc p w c j k cr cx DocEnd)"
  apply (insert lenw lenj lenk ne clk)
  apply (simp add: insertLogoot_def pos constructSkipRanges_def tomb_doc_def new_AnchorLogootNode_def
      search_all slice_two pref sort_cmp_def Let_def lt_def logoot_end_def pos_simps
      new_OperationBuffer_def new_ListDocumentModel_def)
  apply (simp add: fillSkipRanges_def fill_node_def fill_space_def Let_def pos_simps
      l_atom_offsetLowest[OF ne] set_atom_offsetLowest[OF ne] set_atom_offset[OF ne]
      alloc_def new_AnchorLogootNode_def bstadd_def add_mid
      insert_def ldoc_start_def ldoc_length_def mirror_def inorder_successor_def addSpaceBefore_def
      fill_existing_def logoot_end_def upd_def)
  apply (simp add: linkFilledSkipRanges_def upd_def createScanset_def set_add_def true_left_def
      true_right_def eq_def logoot_end_def pos_simps levels_def
      fillRangeConflicts_def unc_left unc_right lt_def cong: if_cong sum.case_cong)
  apply (simp add: finish_insert_def opt_list_def patchRemovalAnchors_def data_scan_set_def
      patch_visit_def set_delete_def set_add_def true_left_def true_right_def upd_def lt_def gt_def
      lteq_def logoot_end_def pos_simps refilled_doc_def
      new_ListDocumentModel_def new_AnchorLogootNode_def fun_upd_twist cong: if_cong sum.case_cong)
  done


lemma insert_again:
  assumes pos: "new_LogootPosition E br (j + k) None None = Inr p"
    and ne: "p \<noteq> []" and lenw: "0 < w" and lenj: "0 < j" and lenk: "0 < k" and clk: "cx < cr"
    and search_all: "\<And>m. prefSearch E m None None LOGO = ([], bst m, [])"
    and pref: "\<And>a b. lt (logoot_start b) (logoot_start a) \<Longrightarrow> \<not> preferential_cmp E a b < 0"
    and slice_three: "\<And>m a b d add. logoot_start (nodes m a) = offsetLowest p (- w)
          \<Longrightarrow> logoot_start (nodes m b) = p \<Longrightarrow> logoot_start (nodes m d) = offsetLowest p j
          \<Longrightarrow> sliceNodesIntoRanges E [p, p, offsetLowest p (j + k), offsetLowest p (j + k)] [a, b, d] add m
                = Inr ([[a], [], [b, d], [], []], m)"
    and unc_left: "\<And>node lst add m. lt (logoot_start (nodes m lst)) (logoot_start (nodes m node))
          \<Longrightarrow> right_anchor (nodes m lst) = RightPos (logoot_start (nodes m node))
          \<Longrightarrow> lst \<notin> set (conflict_with (nodes m node))
          \<Longrightarrow> updateNeighborConflicts E node lst add m = Inr (False, m)"
    and unc_right: "\<And>node lst add m. lt (logoot_start (nodes m node)) (logoot_start (nodes m lst))
          \<Longrightarrow> left_anchor (nodes m lst) = LeftPos (logoot_end (nodes m node))
          \<Longrightarrow> lst \<notin> set (conflict_with (nodes m node))
          \<Longrightarrow> updateNeighborConflicts E node lst add m = Inr (False, m)"
  shows "insertLogoot E (refilled_doc p w c j k cr cx DocEnd) br None None (j + k) cx =
           Inr ([RemovalOperation w j, InsertionOperation w 0 j],
                refilled_doc p w c j k cr cx (RightPos (offsetLowest p j)))"
  apply (insert lenw lenj lenk ne clk)
  apply (simp add: insertLogoot_def pos constructSkipRanges_def refilled_doc_def new_AnchorLogootNode_def
      search_all slice_three pref sort_cmp_def Let_def lt_def logoot_end_def pos_simps
      new_OperationBuffer_def new_ListDocumentModel_def)
  apply (simp add: fillSkipRanges_def fill_node_def fill_space_def Let_def pos_simps
      l_atom_offsetLowest[OF ne] set_atom_offsetLowest[OF ne] set_atom_offset[OF ne]
      alloc_def new_AnchorLogootNode_def bstadd_def remove_def
      insert_def ldoc_start_def ldoc_length_def mirror_def inorder_successor_def addSpaceBefore_def
      fill_existing_def logoot_end_def upd_def)
  apply (simp add: linkFilledSkipRanges_def upd_def createScanset_def set_add_def true_left_def
      true_right_def eq_def logoot_end_def pos_simps levels_def reduceRight_def
      fillRangeConflicts_def unc_left unc_right lt_def cong: if_cong sum.case_cong)
  apply (simp add: finish_insert_def opt_list_def patchRemovalAnchors_def data_scan_set_def
      patch_visit_def set_delete_def set_add_def true_left_def true_right_def upd_def lt_def gt_def
      lteq_def logoot_end_def pos_simps refilled_doc_def
      new_ListDocumentModel_def new_AnchorLogootNode_def fun_upd_twist cong: if_cong sum.case_cong)
  done

text \<open>
  C3 (the code does not do what the claim says). A replica receives an insertion of
  \<open>w\<close> elements in front of \<open>p\<close>, an insertion of \<open>k\<close> elements behind \<open>p + j\<close>
  and their removal with clock \<open>cr\<close>; this state \<open>m0\<close> is reachable. The insertion of
  the run of \<open>j + k\<close> elements at \<open>p\<close>, with a clock \<open>cx\<close> below \<open>cr\<close>, is then
  applied twice with the same arguments. The first application creates the node of the
  first \<open>j\<close> elements with the end of the document as right anchor. The second one
  reduces that right anchor to \<open>p + j\<close>, the start of the tombstone: applying the call
  twice does not leave the state that applying it once leaves.
  \<^verbatim>\<open>fillRangeConflicts\<close> has reversed \<^verbatim>\<open>filled_skip_ranges\<close> in place, so the first
  application records \<^verbatim>\<open>filled_skip_ranges[0]\<close>, by then the tombstone, in the
  \<^verbatim>\<open>conflict_with\<close> of the node in front, and the second application finds the
  tombstone in the scan set of that node.
\<close>

theorem repeated_insertion_changes_anchor:
  assumes pos_front: "new_LogootPosition E br w None (Some p) = Inr (inverseOffsetLowest p w)"
    and pos_behind: "new_LogootPosition E br k (Some (offsetLowest p j)) None = Inr (offsetLowest p j)"
    and pos_run: "new_LogootPosition E br (j + k) None None = Inr p"
    and ne: "p \<noteq> []" and lenw: "0 < w" and lenj: "0 < j" and lenk: "0 < k"
    and clk_rm: "c' \<le> cr" and clk: "cx < cr"
    and search_empty: "\<And>m lo hi b. bst m = [] \<Longrightarrow> prefSearch E m lo hi b = ([], [], [])"
    and slice_empty: "\<And>bs add m. sliceNodesIntoRanges E bs [] add m = Inr (replicate (Suc (length bs)) [], m)"
    and add_empty: "\<And>r m. bst m = [] \<Longrightarrow> bst_add E r m = m\<lparr>bst := [r]\<rparr>"
    and search_left: "\<And>m. map (\<lambda>z. logoot_start (nodes m z)) (bst m) = [offsetLowest p (- w)]
          \<Longrightarrow> prefSearch E m (Some (inverseOffsetLowest (offsetLowest p j) 1)) None LOGO = (bst m, [], [])"
    and slice_left: "\<And>m a add. logoot_start (nodes m a) = offsetLowest p (- w)
          \<Longrightarrow> sliceNodesIntoRanges E
                [offsetLowest p j, offsetLowest p j, offsetLowest p (j + k), offsetLowest p (j + k)] [a] add m
                = Inr ([[a], [], [], [], []], m)"
    and add_after: "\<And>m r. map (\<lambda>z. logoot_start (nodes m z)) (bst m) = [offsetLowest p (- w)]
          \<Longrightarrow> logoot_start (nodes m r) = offsetLowest p j
          \<Longrightarrow> bst_add E r m = m\<lparr>bst := bst m @ [r]\<rparr>"
    and search_rm: "\<And>m. map (\<lambda>z. logoot_start (nodes m z)) (bst m) = [offsetLowest p (- w), offsetLowest p j]
          \<Longrightarrow> prefSearch E m (Some (offsetLowest p j)) (Some (offsetLowest p (j + k))) LCGO
                = ([hd (bst m)], tl (bst m), [])"
    and slice_rm: "\<And>m a b add. logoot_start (nodes m a) = offsetLowest p (- w)
          \<Longrightarrow> logoot_start (nodes m b) = offsetLowest p j \<Longrightarrow> node_length (nodes m b) = k
          \<Longrightarrow> sliceNodesIntoRanges E [offsetLowest p j, offsetLowest p (j + k)] [a, b] add m
                = Inr ([[a], [b], []], m)"
    and search_all: "\<And>m. prefSearch E m None None LOGO = ([], bst m, [])"
    and pref: "\<And>a b. lt (logoot_start b) (logoot_start a) \<Longrightarrow> \<not> preferential_cmp E a b < 0"
    and slice_two: "\<And>m a b add. logoot_start (nodes m a) = offsetLowest p (- w)
          \<Longrightarrow> logoot_start (nodes m b) = offsetLowest p j
          \<Longrightarrow> sliceNodesIntoRanges E [p, p, offsetLowest p (j + k), offsetLowest p (j + k)] [a, b] add m
                = Inr ([[a], [], [b], [], []], m)"
    and add_mid: "\<And>m r. map (\<lambda>z. logoot_start (nodes m z)) (bst m) = [offsetLowest p (- w), offsetLowest p j]
          \<Longrightarrow> logoot_start (nodes m r) = p
          \<Longrightarrow> bst_add E r m = m\<lparr>bst := [hd (bst m), r] @ tl (bst m)\<rparr>"
    and slice_three: "\<And>m a b d add. logoot_start (nodes m a) = offsetLowest p (- w)
          \<Longrightarrow> logoot_start (nodes m b) = p \<Longrightarrow> logoot_start (nodes m d) = offsetLowest p j
          \<Longrightarrow> sliceNodesIntoRanges E [p, p, offsetLowest p (j + k), offsetLowest p (j + k)] [a, b, d] add m
                = Inr ([[a], [], [b, d], [], []], m)"
    and unc_left: "\<And>node lst add m. lt (logoot_start (nodes m lst)) (logoot_start (nodes m node))
          \<Longrightarrow> right_anchor (nodes m lst) = RightPos (logoot_start (nodes m node))
          \<Longrightarrow> lst \<notin> set (conflict_with (nodes m node))
          \<Longrightarrow> updateNeighborConflicts E node lst add m = Inr (False, m)"
    and unc_right: "\<And>node lst add m. lt (logoot_start (nodes m node)) (logoot_start (nodes m lst))
          \<Longrightarrow> left_anchor (nodes m lst) = LeftPos (logoot_end (nodes m node))
          \<Longrightarrow> lst \<notin> set (conflict_with (nodes m node))
          \<Longrightarrow> updateNeighborConflicts E node lst add m = Inr (False, m)"
  shows "\<exists>m0 m1 m2.
           apply_ops E new_ListDocumentModel
             [InsertOp br None (Some p) w c, InsertOp br (Some (offsetLowest p j)) None k c',
              RemoveOp (offsetLowest p j) k cr] = Inr m0
         \<and> apply_op E m0 (InsertOp br None None (j + k) cx) = Inr m1
         \<and> apply_op E m1 (InsertOp br None None (j + k) cx) = Inr m2
         \<and> map (\<lambda>x. (logoot_start x, right_anchor x)) (all_nodes m1)
             = [(offsetLowest p (- w), RightPos p), (p, DocEnd), (offsetLowest p j, DocEnd)]
         \<and> map (\<lambda>x. (logoot_start x, right_anchor x)) (all_nodes m2)
             = [(offsetLowest p (- w), RightPos p), (p, RightPos (offsetLowest p j)), (offsetLowest p j, DocEnd)]"
proof -
  have i1: "insertLogoot E new_ListDocumentModel br None (Some p) w c =
           Inr ([InsertionOperation 0 0 w], front_doc p w c)"
    by (rule insert_front[OF pos_front ne lenw search_empty slice_empty add_empty])
  have i2: "insertLogoot E (front_doc p w c) br (Some (offsetLowest p j)) None k c' =
           Inr ([InsertionOperation w 0 k], tomb_doc p w c j k DATA c')"
    by (rule insert_behind[OF pos_behind ne lenw lenj lenk search_left slice_left add_after])
  have r3: "removeLogoot E (tomb_doc p w c j k DATA c') (offsetLowest p j) k cr =
           Inr ([RemovalOperation w k], tomb_doc p w c j k REMOVAL cr)"
    by (rule remove_behind[OF ne lenw lenj lenk clk_rm search_rm slice_rm])
  have i4: "insertLogoot E (tomb_doc p w c j k REMOVAL cr) br None None (j + k) cx =
           Inr ([InsertionOperation w 0 j], refilled_doc p w c j k cr cx DocEnd)"
    by (rule insert_over_tombstone[OF pos_run ne lenw lenj lenk clk search_all pref slice_two add_mid
          unc_left unc_right])
  have i5: "insertLogoot E (refilled_doc p w c j k cr cx DocEnd) br None None (j + k) cx =
           Inr ([RemovalOperation w j, InsertionOperation w 0 j],
                refilled_doc p w c j k cr cx (RightPos (offsetLowest p j)))"
    by (rule insert_again[OF pos_run ne lenw lenj lenk clk search_all pref slice_three unc_left unc_right])
  have a: "apply_ops E new_ListDocumentModel
             [InsertOp br None (Some p) w c, InsertOp br (Some (offsetLowest p j)) None k c',
              RemoveOp (offsetLowest p j) k cr] = Inr (tomb_doc p w c j k REMOVAL cr)"
    by (simp add: apply_op_def i1 i2 r3)
  have b: "apply_op E (tomb_doc p w c j k REMOVAL cr) (InsertOp br None None (j + k) cx)
      = Inr (refilled_doc p w c j k cr cx DocEnd)"
    by (simp add: apply_op_def i4)
  have d: "apply_op E (refilled_doc p w c j k cr cx DocEnd) (InsertOp br None None (j + k) cx)
      = Inr (refilled_doc p w c j k cr cx (RightPos (offsetLowest p j)))"
    by (simp add: apply_op_def i5)
  have n: "map (\<lambda>x. (logoot_start x, right_anchor x)) (all_nodes (refilled_doc p w c j k cr cx ra))
             = [(offsetLowest p (- w), RightPos p), (p, ra), (offsetLowest p j, DocEnd)]" for ra
    by (simp add: all_nodes_def refilled_doc_def new_AnchorLogootNode_def)
  show ?thesis
    by (intro exI[of _ "tomb_doc p w c j k REMOVAL cr"] exI[of _ "refilled_doc p w c j k cr cx DocEnd"]
        exI[of _ "refilled_doc p w c j k cr cx (RightPos (offsetLowest p j))"] conjI a b d n)
qed

text \<open>
  The theorem at work on the instance of the parameters, with the clocks of one replica
  that types two elements (clock 0), removes the second, types one element at the end
  (clock 1), removes it (clock 2) and types one element at the front (clock 1).
\<close>

theorem repeated_insertion_changes_anchor_witness:
  "\<exists>m0 m1 m2.
           apply_ops env_ex new_ListDocumentModel
             [InsertOp 0 None (Some [(0, 0)]) 1 1, InsertOp 0 (Some [(1, 0)]) None 1 1,
              RemoveOp [(1, 0)] 1 2] = Inr m0
         \<and> apply_op env_ex m0 (InsertOp 0 None None 2 0) = Inr m1
         \<and> apply_op env_ex m1 (InsertOp 0 None None 2 0) = Inr m2
         \<and> map (\<lambda>x. (logoot_start x, right_anchor x)) (all_nodes m1)
             = [([(- 1, 0)], RightPos [(0, 0)]), ([(0, 0)], DocEnd), ([(1, 0)], DocEnd)]
         \<and> map (\<lambda>x. (logoot_start x, right_anchor x)) (all_nodes m2)
             = [([(- 1, 0)], RightPos [(0, 0)]), ([(0, 0)], RightPos [(1, 0)]), ([(1, 0)], DocEnd)]"
proof -
  have o [simp]: "offsetLowest [(0, 0)] a = [(a, 0)]" for a :: int
    by (simp add: offsetLowest_def)
  have "\<exists>m0 m1 m2.
           apply_ops env_ex new_ListDocumentModel
             [InsertOp 0 None (Some [(0, 0)]) 1 1, InsertOp 0 (Some (offsetLowest [(0, 0)] 1)) None 1 1,
              RemoveOp (offsetLowest [(0, 0)] 1) 1 2] = Inr m0
         \<and> apply_op env_ex m0 (InsertOp 0 None None (1 + 1) 0) = Inr m1
         \<and> apply_op env_ex m1 (InsertOp 0 None None (1 + 1) 0) = Inr m2
         \<and> map (\<lambda>x. (logoot_start x, right_anchor x)) (all_nodes m1)
             = [(offsetLowest [(0, 0)] (- 1), RightPos [(0, 0)]), ([(0, 0)], DocEnd),
                (offsetLowest [(0, 0)] 1, DocEnd)]
         \<and> map (\<lambda>x. (logoot_start x, right_anchor x)) (all_nodes m2)
             = [(offsetLowest [(0, 0)] (- 1), RightPos [(0, 0)]),
                ([(0, 0)], RightPos (offsetLowest [(0, 0)] 1)), (offsetLowest [(0, 0)] 1, DocEnd)]"
  proof (rule repeated_insertion_changes_anchor[where c' = 1 and cr = 2 and cx = 0])
    show "new_LogootPosition env_ex 0 1 None (Some [(0, 0)]) = Inr (inverseOffsetLowest [(0, 0)] 1)"
      by (simp add: env_ex_def top_level_position_def l_atom_def inverseOffsetLowest_def)
    show "new_LogootPosition env_ex 0 1 (Some (offsetLowest [(0, 0)] 1)) None = Inr (offsetLowest [(0, 0)] 1)"
      by (simp add: env_ex_def top_level_position_def l_atom_def)
    show "new_LogootPosition env_ex 0 (1 + 1) None None = Inr [(0, 0)]"
      by (simp add: env_ex_def top_level_position_def)
    show "\<And>m lo hi b. bst m = [] \<Longrightarrow> prefSearch env_ex m lo hi b = ([], [], [])"
      by (simp add: env_ex_def range_search_def)
    show "\<And>bs add m. sliceNodesIntoRanges env_ex bs [] add m = Inr (replicate (Suc (length bs)) [], m)"
    proof -
      fix bs :: "LogootPosition list" and add :: "ref \<Rightarrow> ListDocumentModel \<Rightarrow> error + ListDocumentModel" and m
      have "partition_at m bs [] = replicate (Suc (length bs)) []"
        by (induction bs) simp_all
      then show "sliceNodesIntoRanges env_ex bs [] add m = Inr (replicate (Suc (length bs)) [], m)"
        by (simp add: env_ex_def)
    qed
    show "\<And>r m. bst m = [] \<Longrightarrow> bst_add env_ex r m = m\<lparr>bst := [r]\<rparr>"
      by (simp add: env_ex_def)
    show "\<And>m. map (\<lambda>z. logoot_start (nodes m z)) (bst m) = [offsetLowest [(0, 0)] (- 1)]
          \<Longrightarrow> prefSearch env_ex m (Some (inverseOffsetLowest (offsetLowest [(0, 0)] 1) 1)) None LOGO
                = (bst m, [], [])"
      by (auto simp: env_ex_def range_search_def lteq_def inverseOffsetLowest_def offsetLowest_def)
    show "\<And>m a add. logoot_start (nodes m a) = offsetLowest [(0, 0)] (- 1)
          \<Longrightarrow> sliceNodesIntoRanges env_ex
                [offsetLowest [(0, 0)] 1, offsetLowest [(0, 0)] 1, offsetLowest [(0, 0)] (1 + 1),
                 offsetLowest [(0, 0)] (1 + 1)] [a] add m
                = Inr ([[a], [], [], [], []], m)"
      by (simp add: env_ex_def lt_def)
    show "\<And>m r. map (\<lambda>z. logoot_start (nodes m z)) (bst m) = [offsetLowest [(0, 0)] (- 1)]
          \<Longrightarrow> logoot_start (nodes m r) = offsetLowest [(0, 0)] 1
          \<Longrightarrow> bst_add env_ex r m = m\<lparr>bst := bst m @ [r]\<rparr>"
      by (auto simp: env_ex_def)
    show "\<And>m. map (\<lambda>z. logoot_start (nodes m z)) (bst m)
                = [offsetLowest [(0, 0)] (- 1), offsetLowest [(0, 0)] 1]
          \<Longrightarrow> prefSearch env_ex m (Some (offsetLowest [(0, 0)] 1)) (Some (offsetLowest [(0, 0)] (1 + 1))) LCGO
                = ([hd (bst m)], tl (bst m), [])"
      by (auto simp: env_ex_def range_search_def lt_def gteq_def)
    show "\<And>m a b add. logoot_start (nodes m a) = offsetLowest [(0, 0)] (- 1)
          \<Longrightarrow> logoot_start (nodes m b) = offsetLowest [(0, 0)] 1 \<Longrightarrow> node_length (nodes m b) = 1
          \<Longrightarrow> sliceNodesIntoRanges env_ex [offsetLowest [(0, 0)] 1, offsetLowest [(0, 0)] (1 + 1)] [a, b] add m
                = Inr ([[a], [b], []], m)"
      by (simp add: env_ex_def lt_def)
    show "\<And>m. prefSearch env_ex m None None LOGO = ([], bst m, [])"
      by (simp add: env_ex_def range_search_def)
    show "\<And>a b. lt (logoot_start b) (logoot_start a) \<Longrightarrow> \<not> preferential_cmp env_ex a b < 0"
      using cmp_antisym by (simp add: env_ex_def lt_def)
    show "\<And>m a b add. logoot_start (nodes m a) = offsetLowest [(0, 0)] (- 1)
          \<Longrightarrow> logoot_start (nodes m b) = offsetLowest [(0, 0)] 1
          \<Longrightarrow> sliceNodesIntoRanges env_ex
                [[(0, 0)], [(0, 0)], offsetLowest [(0, 0)] (1 + 1), offsetLowest [(0, 0)] (1 + 1)] [a, b] add m
                = Inr ([[a], [], [b], [], []], m)"
      by (simp add: env_ex_def lt_def)
    show "\<And>m r. map (\<lambda>z. logoot_start (nodes m z)) (bst m)
                = [offsetLowest [(0, 0)] (- 1), offsetLowest [(0, 0)] 1]
          \<Longrightarrow> logoot_start (nodes m r) = [(0, 0)]
          \<Longrightarrow> bst_add env_ex r m = m\<lparr>bst := [hd (bst m), r] @ tl (bst m)\<rparr>"
      by (auto simp: env_ex_def)
    show "\<And>m a b d add. logoot_start (nodes m a) = offsetLowest [(0, 0)] (- 1)
          \<Longrightarrow> logoot_start (nodes m b) = [(0, 0)] \<Longrightarrow> logoot_start (nodes m d) = offsetLowest [(0, 0)] 1
          \<Longrightarrow> sliceNodesIntoRanges env_ex
                [[(0, 0)], [(0, 0)], offsetLowest [(0, 0)] (1 + 1), offsetLowest [(0, 0)] (1 + 1)] [a, b, d] add m
                = Inr ([[a], [], [b, d], [], []], m)"
      by (simp add: env_ex_def lt_def)
    show "\<And>node lst add m. lt (logoot_start (nodes m lst)) (logoot_start (nodes m node))
          \<Longrightarrow> right_anchor (nodes m lst) = RightPos (logoot_start (nodes m node))
          \<Longrightarrow> lst \<notin> set (conflict_with (nodes m node))
          \<Longrightarrow> updateNeighborConflicts env_ex node lst add m = Inr (False, m)"
      by (simp add: env_ex_def neighbour_conflict_def true_right_def gt_def cmp_same)
    show "\<And>node lst add m. lt (logoot_start (nodes m node)) (logoot_start (nodes m lst))
          \<Longrightarrow> left_anchor (nodes m lst) = LeftPos (logoot_end (nodes m node))
          \<Longrightarrow> lst \<notin> set (conflict_with (nodes m node))
          \<Longrightarrow> updateNeighborConflicts env_ex node lst add m = Inr (False, m)"
      using cmp_antisym by (auto simp: env_ex_def neighbour_conflict_def true_left_def lt_def cmp_same)
  qed simp_all
  then show ?thesis by simp
qed

end
